theory Spec2Isabelle
  imports Main "HOL-Library.Char_ord" "HOL-Library.List_Lexorder"
begin

section \<open>Industry adoption pipeline: loader, joiner, aggregator, presenter\<close>

text \<open>
  The three scripts (\<^verbatim>\<open>export_web_data.py\<close>, \<^verbatim>\<open>generate_summary_stats.py\<close>,
  \<^verbatim>\<open>plot_industry_adoption.py\<close>) read two parquet tables per agent, join them on the
  repository identifier, count the joined rows by month and industry code and present the
  counts. The embedding keeps the pandas operations the scripts call as list functions:
  a table read from a file is its column labels together with its rows, a raised
  exception is the \<open>Inl\<close> of a sum. The tables are those of the data model: a first-use
  table holds a repository identifier and a first-use instant per row, a predictions
  table an identifier and an industry code, and the merged frame has the columns
  \<^verbatim>\<open>nwo\<close>, \<^verbatim>\<open>first_use_date\<close>, \<^verbatim>\<open>predicted_naics\<close> that the docstrings of the
  plotting script give. Cells are values of the data model; pandas' missing-value markers
  are not part of it, and the instants are already parsed, so \<^verbatim>\<open>pd.to_datetime\<close>
  fails only where the column lookup fails. The schema failures that are modelled are
  those of the loader and the joiner: an expected label that is absent, or one that two
  columns carry after the renaming. Strings are ordered as Python orders them,
  lexicographically by character code.
\<close>

subsection \<open>Exceptions\<close>

datatype py_error =
  FileNotFoundError
| KeyError string
| ValueError
| IndexError
| TypeError

definition bind_err :: "py_error + 'a \<Rightarrow> ('a \<Rightarrow> py_error + 'b) \<Rightarrow> py_error + 'b" where
  "bind_err m f = (case m of Inl e \<Rightarrow> Inl e | Inr x \<Rightarrow> f x)"

subsection \<open>Timestamps and monthly periods\<close>

text \<open>
  A timestamp is held by its UTC calendar fields. A pandas monthly \<^verbatim>\<open>Period\<close> is an
  ordinal, the number of months since 1970-01; periods compare by ordinal and print as
  \<^verbatim>\<open>%Y-%m\<close>.
\<close>

record timestamp =
  ts_year :: nat
  ts_month :: nat
  ts_day :: nat
  ts_nanos :: nat

type_synonym period = int

definition to_period_M :: "timestamp \<Rightarrow> period" where
  "to_period_M t = (int (ts_year t) - 1970) * 12 + (int (ts_month t) - 1)"

definition period_year :: "period \<Rightarrow> nat" where
  "period_year p = nat (1970 + p div 12)"

definition period_month :: "period \<Rightarrow> nat" where
  "period_month p = nat (p mod 12) + 1"

definition digit_char :: "nat \<Rightarrow> char" where
  "digit_char d = char_of (48 + d mod 10)"

fun zero_pad :: "nat \<Rightarrow> nat \<Rightarrow> string" where
  "zero_pad 0 n = []"
| "zero_pad (Suc w) n = zero_pad w (n div 10) @ [digit_char n]"

definition period_str :: "period \<Rightarrow> string" where
  "period_str p = zero_pad 4 (period_year p) @ ''-'' @ zero_pad 2 (period_month p)"

definition to_timestamp :: "period \<Rightarrow> timestamp" where
  "to_timestamp p =
     \<lparr>ts_year = period_year p, ts_month = period_month p, ts_day = 1, ts_nanos = 0\<rparr>"

subsection \<open>Frames\<close>

text \<open>
  The first-use table as read from the parquet file: its column labels, and for each row
  the cell of the repository-identifier column (labelled \<^verbatim>\<open>nwo\<close>, or \<^verbatim>\<open>repo_nwo\<close> in
  the legacy schema) and the cell of the first-use column (\<^verbatim>\<open>first_use_date\<close>, or
  \<^verbatim>\<open>first_claude_commit\<close>). The predictions table likewise.
\<close>

record first_use_row =
  fu_nwo :: string
  first_use_date :: timestamp

record first_use_frame =
  fu_columns :: "string list"
  fu_rows :: "first_use_row list"

record prediction_row =
  pr_nwo :: string
  predicted_naics :: string

record predictions_frame =
  pr_columns :: "string list"
  pr_rows :: "prediction_row list"

record merged_row =
  m_nwo :: string
  m_first_use_date :: timestamp
  m_predicted_naics :: string

type_synonym merged_frame = "merged_row list"

text \<open>
  The data directories: the parquet file of an agent, if there is one.
  \<^verbatim>\<open>pd.read_parquet\<close> raises \<^verbatim>\<open>FileNotFoundError\<close> on a path that does not exist.
\<close>

record file_system =
  adoption_dir :: "string \<Rightarrow> first_use_frame option"
  predictions_dir :: "string \<Rightarrow> predictions_frame option"

definition read_parquet :: "(string \<Rightarrow> 'a option) \<Rightarrow> string \<Rightarrow> py_error + 'a" where
  "read_parquet dir agent =
     (case dir agent of None \<Rightarrow> Inl FileNotFoundError | Some df \<Rightarrow> Inr df)"

text \<open>
  Looking a label up, \<^verbatim>\<open>df[c]\<close> or a merge key: an absent label is a \<^verbatim>\<open>KeyError\<close>;
  a label carried by two columns gives a frame where a series is needed, which
  \<^verbatim>\<open>pd.to_datetime\<close> and \<^verbatim>\<open>merge\<close> refuse with a \<^verbatim>\<open>ValueError\<close>.
\<close>

definition require_column :: "string list \<Rightarrow> string \<Rightarrow> py_error + unit" where
  "require_column cols c =
     (if c \<notin> set cols then Inl (KeyError c)
      else if 1 < count_list cols c then Inl ValueError
      else Inr ())"

subsection \<open>Loader: column normalisation\<close>

text \<open>\<^verbatim>\<open>df.rename(columns={old: new})\<close> relabels every column called \<open>old\<close>.\<close>

definition rename_column :: "string \<Rightarrow> string \<Rightarrow> string list \<Rightarrow> string list" where
  "rename_column old new cols = map (\<lambda>c. if c = old then new else c) cols"

text \<open>
  The two guarded renames of \<^verbatim>\<open>load_first_use\<close> (both scripts) and of
  \<^verbatim>\<open>load_and_process\<close>.
\<close>

definition normalize_columns :: "string list \<Rightarrow> string list" where
  "normalize_columns cols =
     (let cols1 = (if ''repo_nwo'' \<in> set cols
                   then rename_column ''repo_nwo'' ''nwo'' cols else cols);
          cols2 = (if ''first_claude_commit'' \<in> set cols1
                   then rename_column ''first_claude_commit'' ''first_use_date'' cols1
                   else cols1)
      in cols2)"

definition normalize :: "first_use_frame \<Rightarrow> first_use_frame" where
  "normalize df = df\<lparr>fu_columns := normalize_columns (fu_columns df)\<rparr>"

text \<open>
  \<^verbatim>\<open>df["first_use_date"] = pd.to_datetime(df["first_use_date"], utc=True)\<close>: the
  lookup can fail; the cells are instants already and stay as they are.
\<close>

definition to_datetime_column :: "first_use_frame \<Rightarrow> py_error + first_use_frame" where
  "to_datetime_column df =
     bind_err (require_column (fu_columns df) ''first_use_date'') (\<lambda>_. Inr df)"

subsection \<open>Joiner\<close>

text \<open>
  \<^verbatim>\<open>predictions[["nwo", "predicted_naics"]]\<close> keeps the two columns; a missing label is
  a \<^verbatim>\<open>KeyError\<close>.
\<close>

definition select_predictions :: "predictions_frame \<Rightarrow> py_error + predictions_frame" where
  "select_predictions p =
     (if ''nwo'' \<notin> set (pr_columns p) then Inl (KeyError ''nwo'')
      else if ''predicted_naics'' \<notin> set (pr_columns p) then Inl (KeyError ''predicted_naics'')
      else Inr (p\<lparr>pr_columns :=
                  filter (\<lambda>c. c = ''nwo'') (pr_columns p) @
                  filter (\<lambda>c. c = ''predicted_naics'') (pr_columns p)\<rparr>))"

text \<open>
  The rows of \<^verbatim>\<open>left.merge(right, on="nwo", how="inner")\<close>: every pair of a left row and
  a right row with the same identifier, in the order of the left rows.
\<close>

definition join_row :: "first_use_row \<Rightarrow> prediction_row \<Rightarrow> merged_row" where
  "join_row l r =
     \<lparr>m_nwo = fu_nwo l, m_first_use_date = first_use_date l,
      m_predicted_naics = predicted_naics r\<rparr>"

definition inner_join :: "first_use_row list \<Rightarrow> prediction_row list \<Rightarrow> merged_row list" where
  "inner_join left right =
     concat (map (\<lambda>l. map (join_row l) (filter (\<lambda>r. pr_nwo r = fu_nwo l) right)) left)"

definition merge :: "first_use_frame \<Rightarrow> predictions_frame \<Rightarrow> py_error + merged_frame" where
  "merge first_use predictions =
     bind_err (require_column (pr_columns predictions) ''nwo'') (\<lambda>_.
     bind_err (require_column (fu_columns first_use) ''nwo'') (\<lambda>_.
       Inr (inner_join (fu_rows first_use) (pr_rows predictions))))"

text \<open>
  \<^verbatim>\<open>first_use.merge(predictions[["nwo", "predicted_naics"]], on="nwo", how="inner")\<close>,
  the call of all three scripts.
\<close>

definition merge_predictions :: "first_use_frame \<Rightarrow> predictions_frame \<Rightarrow> py_error + merged_frame" where
  "merge_predictions first_use preds = bind_err (select_predictions preds) (merge first_use)"

subsection \<open>Aggregator\<close>

text \<open>
  A month-by-industry table: the sorted index of months and, per industry column, the
  values down the index.
\<close>

record pivot =
  p_index :: "period list"
  p_columns :: "(string \<times> nat list) list"

text \<open>
  \<^verbatim>\<open>groupby([k1, k2]).size().unstack(fill_value=0)\<close> on the list of key pairs: the
  index is the sorted distinct first keys, the columns are the sorted distinct second
  keys, a cell is the number of rows with that pair (0 where there is none).
\<close>

definition groupby_size_unstack :: "(period \<times> string) list \<Rightarrow> pivot" where
  "groupby_size_unstack keys =
     (let idx = sort (remdups (map fst keys));
          cs = sort (remdups (map snd keys))
      in \<lparr>p_index = idx,
          p_columns = map (\<lambda>c. (c, map (\<lambda>m. count_list keys (m, c)) idx)) cs\<rparr>)"

text \<open>\<^verbatim>\<open>sort_index\<close> orders the rows by month (stably), carrying the cells along.\<close>

definition sort_index :: "pivot \<Rightarrow> pivot" where
  "sort_index t =
     (let perm = sort_key (\<lambda>i. p_index t ! i) [0..<length (p_index t)]
      in \<lparr>p_index = map (\<lambda>i. p_index t ! i) perm,
          p_columns = map (\<lambda>(c, vs). (c, map (\<lambda>i. vs ! i) perm)) (p_columns t)\<rparr>)"

fun cumsum_from :: "nat \<Rightarrow> nat list \<Rightarrow> nat list" where
  "cumsum_from acc [] = []"
| "cumsum_from acc (x # xs) = (acc + x) # cumsum_from (acc + x) xs"

definition cumsum :: "pivot \<Rightarrow> pivot" where
  "cumsum t = t\<lparr>p_columns := map (\<lambda>(c, vs). (c, cumsum_from 0 vs)) (p_columns t)\<rparr>"

text \<open>The month and industry keys of the merged rows, the grouping of all three scripts.\<close>

definition year_month :: "merged_row \<Rightarrow> period" where
  "year_month r = to_period_M (m_first_use_date r)"

definition month_industry_keys :: "merged_frame \<Rightarrow> (period \<times> string) list" where
  "month_industry_keys rows = map (\<lambda>r. (year_month r, m_predicted_naics r)) rows"

text \<open>
  \<^verbatim>\<open>aggregate_by_month_industry\<close> of the plotting script: the month column is computed
  from \<^verbatim>\<open>first_use_date\<close>, the rows are counted by month and industry, and the index is
  sorted. \<^verbatim>\<open>load_and_process\<close> computes the same month column, and lines 89-90 of
  \<^verbatim>\<open>generate_cumulative_data\<close> are the same two calls.
\<close>

definition aggregate_by_month_industry :: "merged_frame \<Rightarrow> pivot" where
  "aggregate_by_month_industry df = sort_index (groupby_size_unstack (month_industry_keys df))"

subsection \<open>Lookup tables\<close>

definition dict_get :: "(string \<times> string) list \<Rightarrow> string \<Rightarrow> string \<Rightarrow> string" where
  "dict_get d k dflt = (case map_of d k of None \<Rightarrow> dflt | Some v \<Rightarrow> v)"

definition NAICS_DESCRIPTIONS_web :: "(string \<times> string) list" where
  "NAICS_DESCRIPTIONS_web =
     [(''11'', ''Agriculture''), (''21'', ''Mining''), (''22'', ''Utilities''),
      (''23'', ''Construction''), (''31-33'', ''Manufacturing''),
      (''42'', ''Wholesale Trade''), (''44-45'', ''Retail Trade''),
      (''48-49'', ''Transportation''), (''51'', ''Information''), (''52'', ''Finance''),
      (''53'', ''Real Estate''), (''54'', ''Professional Services''),
      (''55'', ''Management''), (''56'', ''Admin Services''), (''61'', ''Education''),
      (''62'', ''Healthcare''), (''71'', ''Entertainment''), (''72'', ''Accommodation''),
      (''81'', ''Other Services''), (''92'', ''Public Admin'')]"

definition INDUSTRY_COLORS :: "(string \<times> string) list" where
  "INDUSTRY_COLORS =
     [(''54'', ''#2E86AB''), (''51'', ''#A23B72''), (''52'', ''#F18F01''),
      (''61'', ''#C73E1D''), (''71'', ''#6A0572''), (''56'', ''#95C623''),
      (''81'', ''#5C8001''), (''48-49'', ''#7B2D8E''), (''44-45'', ''#00A6A6''),
      (''62'', ''#E36397''), (''31-33'', ''#8B4513''), (''92'', ''#4A7C59''),
      (''11'', ''#DAA520''), (''72'', ''#FF6B6B''), (''53'', ''#20B2AA''),
      (''22'', ''#4169E1''), (''23'', ''#CD853F''), (''42'', ''#708090''),
      (''21'', ''#2F4F4F'')]"

definition NAICS_DESCRIPTIONS_plot :: "(string \<times> string) list" where
  "NAICS_DESCRIPTIONS_plot =
     [(''11'', ''Agriculture''), (''21'', ''Mining''), (''22'', ''Utilities''),
      (''23'', ''Construction''), (''31-33'', ''Manufacturing''),
      (''42'', ''Wholesale Trade''), (''44-45'', ''Retail Trade''),
      (''48-49'', ''Transportation''), (''51'', ''Information''), (''52'', ''Finance''),
      (''53'', ''Real Estate''), (''54'', ''Professional Services''),
      (''56'', ''Admin Services''), (''61'', ''Education''), (''62'', ''Healthcare''),
      (''71'', ''Entertainment''), (''72'', ''Accommodation''),
      (''81'', ''Other Services''), (''92'', ''Public Admin'')]"

subsection \<open>\<^verbatim>\<open>export_web_data.py\<close>\<close>

definition load_and_process :: "file_system \<Rightarrow> string \<Rightarrow> py_error + merged_frame" where
  "load_and_process fs agent =
     bind_err (read_parquet (adoption_dir fs) agent) (\<lambda>first_use.
     bind_err (read_parquet (predictions_dir fs) agent) (\<lambda>predictions.
     bind_err (to_datetime_column (normalize first_use)) (\<lambda>first_use.
       merge_predictions first_use predictions)))"

text \<open>
  One element of the \<^verbatim>\<open>industries\<close> list; the key \<^verbatim>\<open>"values"\<close> is the field
  \<open>cumulative_values\<close>.
\<close>

record industry_entry =
  code :: string
  name :: string
  color :: string
  cumulative_values :: "nat list"
  monthly :: "nat list"

record web_data =
  months :: "string list"
  industries :: "industry_entry list"
  total_repos :: nat

text \<open>
  \<^verbatim>\<open>t[col].tolist()\<close> for a label taken from the frame's own columns.
\<close>

definition column :: "pivot \<Rightarrow> string \<Rightarrow> nat list" where
  "column t c = (case map_of (p_columns t) c of None \<Rightarrow> [] | Some vs \<Rightarrow> vs)"

definition make_entry :: "pivot \<Rightarrow> pivot \<Rightarrow> string \<Rightarrow> industry_entry" where
  "make_entry cumulative monthly_t col =
     \<lparr>code = col,
      name = col @ '': '' @ dict_get NAICS_DESCRIPTIONS_web col col,
      color = dict_get INDUSTRY_COLORS col ''#666666'',
      cumulative_values = column cumulative col,
      monthly = column monthly_t col\<rparr>"

text \<open>
  \<^verbatim>\<open>list.sort(key=f, reverse=True)\<close>: the keys of all elements are computed first (so
  \<^verbatim>\<open>x["values"][-1]\<close> raises \<^verbatim>\<open>IndexError\<close> on an empty list); the order is
  descending and elements with equal keys keep their order, which CPython obtains by
  reversing, sorting stably and reversing again.
\<close>

definition sort_reverse :: "('a \<Rightarrow> 'k::linorder) \<Rightarrow> 'a list \<Rightarrow> 'a list" where
  "sort_reverse f xs = rev (sort_key f (rev xs))"

definition sort_by_final_value :: "industry_entry list \<Rightarrow> py_error + industry_entry list" where
  "sort_by_final_value es =
     (if \<exists>e \<in> set es. cumulative_values e = [] then Inl IndexError
      else Inr (sort_reverse (\<lambda>e. last (cumulative_values e)) es))"

text \<open>\<^verbatim>\<open>t.iloc[-1]\<close>: the last row, an \<^verbatim>\<open>IndexError\<close> on a frame without rows.\<close>

definition iloc_last :: "pivot \<Rightarrow> py_error + nat list" where
  "iloc_last t =
     (if p_index t = [] then Inl IndexError
      else Inr (map (\<lambda>(c, vs). last vs) (p_columns t)))"

definition generate_cumulative_data :: "file_system \<Rightarrow> string \<Rightarrow> py_error + web_data" where
  "generate_cumulative_data fs agent =
     bind_err (load_and_process fs agent) (\<lambda>df.
       let monthly_t = aggregate_by_month_industry df;
           cumulative = cumsum monthly_t;
           ms = map period_str (p_index cumulative);
           entries = map (make_entry cumulative monthly_t) (map fst (p_columns cumulative))
       in bind_err (sort_by_final_value entries) (\<lambda>sorted_entries.
          bind_err (iloc_last cumulative) (\<lambda>last_row.
            Inr \<lparr>months = ms, industries = sorted_entries,
                 total_repos = sum_list last_row\<rparr>)))"

text \<open>
  The driver loop of \<^verbatim>\<open>main\<close>: the body of the \<^verbatim>\<open>try\<close> writes the JSON file and prints
  three lines, the second of which reads \<^verbatim>\<open>months[0]\<close>; \<^verbatim>\<open>except Exception\<close> prints the
  error and the loop goes on.
\<close>

datatype export_line =
  Exported string nat
| MonthRange string string
| IndustryCount nat
| ErrorProcessing string py_error

record export_state =
  web_files :: "(string \<times> web_data) list"
  printed :: "export_line list"

definition export_agents :: "(string \<times> string) list" where
  "export_agents =
     [(''claude'', ''Claude Code''), (''copilot'', ''GitHub Copilot''),
      (''codex'', ''OpenAI Codex'')]"

definition export_agent :: "file_system \<Rightarrow> string \<times> string \<Rightarrow> export_state \<Rightarrow> export_state" where
  "export_agent fs agent st =
     (case generate_cumulative_data fs (fst agent) of
        Inl e \<Rightarrow> st\<lparr>printed := printed st @ [ErrorProcessing (snd agent) e]\<rparr>
      | Inr d \<Rightarrow>
          (let st1 = st\<lparr>web_files := web_files st @ [(fst agent @ ''_cumulative.json'', d)],
                        printed := printed st @ [Exported (snd agent) (total_repos d)]\<rparr>
           in if months d = []
              then st1\<lparr>printed := printed st1 @ [ErrorProcessing (snd agent) IndexError]\<rparr>
              else st1\<lparr>printed := printed st1 @
                         [MonthRange (hd (months d)) (last (months d)),
                          IndustryCount (length (industries d))]\<rparr>))"

fun export_loop :: "file_system \<Rightarrow> (string \<times> string) list \<Rightarrow> export_state \<Rightarrow> export_state" where
  "export_loop fs [] st = st"
| "export_loop fs (agent # rest) st = export_loop fs rest (export_agent fs agent st)"

definition export_main :: "file_system \<Rightarrow> export_state" where
  "export_main fs = export_loop fs export_agents \<lparr>web_files = [], printed = []\<rparr>"

subsection \<open>\<^verbatim>\<open>generate_summary_stats.py\<close>\<close>

definition load_predictions :: "file_system \<Rightarrow> string \<Rightarrow> py_error + predictions_frame" where
  "load_predictions fs agent = read_parquet (predictions_dir fs) agent"

text \<open>\<^verbatim>\<open>load_first_use\<close> is the same function in the statistics and the plotting script.\<close>

definition load_first_use :: "file_system \<Rightarrow> string \<Rightarrow> py_error + first_use_frame" where
  "load_first_use fs agent =
     bind_err (read_parquet (adoption_dir fs) agent) (\<lambda>df. to_datetime_column (normalize df))"

text \<open>
  \<^verbatim>\<open>groupby("month").size()\<close>: the sorted distinct months, each with its number of rows.
\<close>

definition groupby_size :: "period list \<Rightarrow> (period \<times> nat) list" where
  "groupby_size ks = map (\<lambda>m. (m, count_list ks m)) (sort (remdups ks))"

record monthly_adoption =
  month :: "string list"
  new_repos :: "nat list"
  cumulative_repos :: "nat list"

definition generate_monthly_adoption :: "file_system \<Rightarrow> string \<Rightarrow> py_error + monthly_adoption" where
  "generate_monthly_adoption fs agent =
     bind_err (load_predictions fs agent) (\<lambda>preds.
     bind_err (load_first_use fs agent) (\<lambda>first_use.
     bind_err (merge_predictions first_use preds) (\<lambda>merged.
       let groups = groupby_size (map year_month merged)
       in Inr \<lparr>month = map (\<lambda>g. period_str (fst g)) groups,
               new_repos = map snd groups,
               cumulative_repos = cumsum_from 0 (map snd groups)\<rparr>)))"

subsection \<open>\<^verbatim>\<open>plot_industry_adoption.py\<close>\<close>

definition merge_with_predictions :: "file_system \<Rightarrow> first_use_frame \<Rightarrow> string \<Rightarrow> py_error + merged_frame" where
  "merge_with_predictions fs first_use agent =
     bind_err (read_parquet (predictions_dir fs) agent) (merge_predictions first_use)"

text \<open>
  The chart data of \<^verbatim>\<open>plot_stacked_area\<close>, lines 146-153. \<^verbatim>\<open>data.sum()\<close> is the total
  of each column; \<^verbatim>\<open>sort_values(ascending=False)\<close> reverses, sorts ascending and
  reverses again (between equal totals the order is that of a stable sort here; pandas'
  default sort kind does not promise one, and nothing below depends on it);
  \<^verbatim>\<open>head(n)\<close> takes the first \<open>n\<close> entries, all but the last \<open>-n\<close> for a negative \<open>n\<close>;
  \<^verbatim>\<open>data[labels]\<close> picks the columns by label; \<^verbatim>\<open>sum(axis=1)\<close> adds along each row;
  assigning \<^verbatim>\<open>plot_data["Other"]\<close> overwrites a column of that label and appends one
  otherwise.
\<close>

definition column_totals :: "pivot \<Rightarrow> (string \<times> nat) list" where
  "column_totals data = map (\<lambda>cv. (fst cv, sum_list (snd cv))) (p_columns data)"

definition sort_values_descending :: "(string \<times> nat) list \<Rightarrow> (string \<times> nat) list" where
  "sort_values_descending s = sort_reverse snd s"

definition head :: "int \<Rightarrow> 'a list \<Rightarrow> 'a list" where
  "head n xs = (if 0 \<le> n then take (nat n) xs else take (length xs - nat (- n)) xs)"

definition select_columns :: "pivot \<Rightarrow> string list \<Rightarrow> (string \<times> nat list) list" where
  "select_columns data labels =
     concat (map (\<lambda>l. filter (\<lambda>cv. fst cv = l) (p_columns data)) labels)"

definition sum_axis1 :: "nat \<Rightarrow> (string \<times> nat list) list \<Rightarrow> nat list" where
  "sum_axis1 n cols = map (\<lambda>i. sum_list (map (\<lambda>cv. snd cv ! i) cols)) [0..<n]"

definition set_column :: "(string \<times> nat list) list \<Rightarrow> string \<Rightarrow> nat list \<Rightarrow> (string \<times> nat list) list" where
  "set_column cols label vs =
     (if label \<in> set (map fst cols)
      then map (\<lambda>cv. if fst cv = label then (label, vs) else cv) cols
      else cols @ [(label, vs)])"

definition top_industries :: "pivot \<Rightarrow> int \<Rightarrow> string list" where
  "top_industries data top_n = map fst (head top_n (sort_values_descending (column_totals data)))"

definition other_cols :: "pivot \<Rightarrow> int \<Rightarrow> string list" where
  "other_cols data top_n =
     filter (\<lambda>c. c \<notin> set (top_industries data top_n)) (map fst (p_columns data))"

definition plot_data :: "pivot \<Rightarrow> int \<Rightarrow> pivot" where
  "plot_data data top_n =
     (let kept = select_columns data (top_industries data top_n);
          others = other_cols data top_n
      in \<lparr>p_index = p_index data,
          p_columns = (if others \<noteq> []
                       then set_column kept ''Other''
                              (sum_axis1 (length (p_index data)) (select_columns data others))
                       else kept)\<rparr>)"

text \<open>
  The rest of \<^verbatim>\<open>plot_stacked_area\<close>: the index becomes timestamps, the columns get
  their legend labels, and the frame is drawn and saved. Drawing a frame without columns
  is refused by pandas (\<^verbatim>\<open>TypeError: no numeric data to plot\<close>).
\<close>

record chart =
  chart_title :: string
  chart_index :: "timestamp list"
  chart_series :: "(string \<times> nat list) list"

definition column_with_desc :: "string \<Rightarrow> string" where
  "column_with_desc col =
     (if col = ''Other'' then ''Other''
      else col @ '': '' @ dict_get NAICS_DESCRIPTIONS_plot col col)"

definition plot_stacked_area :: "pivot \<Rightarrow> string \<Rightarrow> int \<Rightarrow> py_error + chart" where
  "plot_stacked_area data title top_n =
     (let pd = plot_data data top_n
      in if p_columns pd = [] then Inl TypeError
         else Inr \<lparr>chart_title = title,
                   chart_index = map to_timestamp (p_index pd),
                   chart_series = map (\<lambda>cv. (column_with_desc (fst cv), snd cv)) (p_columns pd)\<rparr>)"

text \<open>
  \<^verbatim>\<open>process_agent\<close> saves the chart and returns the merged frame; \<^verbatim>\<open>plot_stacked_area\<close>
  is called with its default \<^verbatim>\<open>top_n = 10\<close>.
\<close>

definition process_agent :: "file_system \<Rightarrow> string \<Rightarrow> string \<Rightarrow> py_error + chart \<times> merged_frame" where
  "process_agent fs agent_name agent_key =
     bind_err (load_first_use fs agent_key) (\<lambda>first_use_df.
     bind_err (merge_with_predictions fs first_use_df agent_key) (\<lambda>merged.
     bind_err (plot_stacked_area (aggregate_by_month_industry merged)
                 (''Monthly Industry Adoption - '' @ agent_name) 10)
       (\<lambda>ch. Inr (ch, merged))))"

text \<open>
  The driver loop of \<^verbatim>\<open>main\<close>: \<^verbatim>\<open>except FileNotFoundError\<close> logs a warning and the loop
  goes on; any other exception leaves \<^verbatim>\<open>main\<close>, which the second component records.
\<close>

record plot_state =
  figures :: "(string \<times> chart) list"
  warnings :: "string list"

definition plot_agents :: "(string \<times> string) list" where
  "plot_agents =
     [(''Claude Code'', ''claude''), (''GitHub Copilot'', ''copilot''),
      (''OpenAI Codex'', ''codex'')]"

fun plot_loop :: "file_system \<Rightarrow> (string \<times> string) list \<Rightarrow> plot_state \<Rightarrow> plot_state \<times> py_error option" where
  "plot_loop fs [] st = (st, None)"
| "plot_loop fs (agent # rest) st =
     (case process_agent fs (fst agent) (snd agent) of
        Inr res \<Rightarrow>
          plot_loop fs rest
            (st\<lparr>figures := figures st @
                   [(''industry_adoption_'' @ snd agent @ ''.png'', fst res)]\<rparr>)
      | Inl e \<Rightarrow>
          (if e = FileNotFoundError
           then plot_loop fs rest (st\<lparr>warnings := warnings st @ [fst agent]\<rparr>)
           else (st, Some e)))"

definition plot_main :: "file_system \<Rightarrow> plot_state \<times> py_error option" where
  "plot_main fs = plot_loop fs plot_agents \<lparr>figures = [], warnings = []\<rparr>"

subsection \<open>The aggregated table, column by column\<close>

text \<open>
  Names for what the proofs below speak about: the column that grouping and unstacking
  give to an industry code, and the industry entries of \<^verbatim>\<open>generate_cumulative_data\<close>
  before they are sorted.
\<close>

definition month_counts :: "(period \<times> string) list \<Rightarrow> string \<Rightarrow> nat list" where
  "month_counts ks c = map (\<lambda>m. count_list ks (m, c)) (sort (remdups (map fst ks)))"

definition entries_of :: "(period \<times> string) list \<Rightarrow> industry_entry list" where
  "entries_of ks =
     map (make_entry (cumsum (groupby_size_unstack ks)) (groupby_size_unstack ks))
       (sort (remdups (map snd ks)))"

subsection \<open>What one iteration of a driver loop leaves behind\<close>

text \<open>
  The JSON file that the export loop writes for an agent, the lines it prints, and the
  figure that the plotting loop saves, each as a function of the agent alone.
\<close>

definition exported_file :: "file_system \<Rightarrow> string \<times> string \<Rightarrow> (string \<times> web_data) option" where
  "exported_file fs agent =
     (case generate_cumulative_data fs (fst agent) of
        Inl e \<Rightarrow> None
      | Inr d \<Rightarrow> Some (fst agent @ ''_cumulative.json'', d))"

definition printed_lines :: "file_system \<Rightarrow> string \<times> string \<Rightarrow> export_line list" where
  "printed_lines fs agent =
     (case generate_cumulative_data fs (fst agent) of
        Inl e \<Rightarrow> [ErrorProcessing (snd agent) e]
      | Inr d \<Rightarrow>
          Exported (snd agent) (total_repos d) #
          (if months d = [] then [ErrorProcessing (snd agent) IndexError]
           else [MonthRange (hd (months d)) (last (months d)),
                 IndustryCount (length (industries d))]))"

definition saved_figure :: "file_system \<Rightarrow> string \<times> string \<Rightarrow> (string \<times> chart) option" where
  "saved_figure fs agent =
     (case process_agent fs (fst agent) (snd agent) of
        Inl e \<Rightarrow> None
      | Inr res \<Rightarrow> Some (''industry_adoption_'' @ snd agent @ ''.png'', fst res))"

definition data_not_found :: "file_system \<Rightarrow> string \<times> string \<Rightarrow> bool" where
  "data_not_found fs agent \<longleftrightarrow>
     process_agent fs (fst agent) (snd agent) = Inl FileNotFoundError"

subsection \<open>Tables with unique labels\<close>

text \<open>
  What grouping and unstacking guarantee of a table: its labels are distinct and every
  column is as long as the index. The total of a column, and the total of a row over a
  list of columns.
\<close>

definition wf_pivot :: "pivot \<Rightarrow> bool" where
  "wf_pivot t \<longleftrightarrow>
     distinct (map fst (p_columns t)) \<and>
     list_all (\<lambda>cv. length (snd cv) = length (p_index t)) (p_columns t)"

definition column_total :: "pivot \<Rightarrow> string \<Rightarrow> nat" where
  "column_total t c = sum_list (column t c)"

definition row_total :: "(string \<times> nat list) list \<Rightarrow> nat \<Rightarrow> nat" where
  "row_total cols i = sum_list (map (\<lambda>cv. snd cv ! i) cols)"

subsection \<open>A worked input\<close>

text \<open>
  The example of the specification: first-use rows for the repositories A, B and C in
  2024-01, 2024-01 and 2024-02, predictions "54", "54" and "62". The second first-use
  table adds a repository D, which has no prediction. Only the agent \<^verbatim>\<open>claude\<close> has
  files.
\<close>

definition utc :: "nat \<Rightarrow> nat \<Rightarrow> nat \<Rightarrow> timestamp" where
  "utc y m d = \<lparr>ts_year = y, ts_month = m, ts_day = d, ts_nanos = 0\<rparr>"

definition example_first_use :: first_use_frame where
  "example_first_use =
     \<lparr>fu_columns = [''nwo'', ''first_use_date''],
      fu_rows = [\<lparr>fu_nwo = ''A'', first_use_date = utc 2024 1 5\<rparr>,
                 \<lparr>fu_nwo = ''B'', first_use_date = utc 2024 1 20\<rparr>,
                 \<lparr>fu_nwo = ''C'', first_use_date = utc 2024 2 3\<rparr>]\<rparr>"

definition example_first_use_D :: first_use_frame where
  "example_first_use_D =
     example_first_use\<lparr>fu_rows := fu_rows example_first_use @
        [\<lparr>fu_nwo = ''D'', first_use_date = utc 2024 2 9\<rparr>]\<rparr>"

definition example_predictions :: predictions_frame where
  "example_predictions =
     \<lparr>pr_columns = [''nwo'', ''predicted_naics'', ''confidence''],
      pr_rows = [\<lparr>pr_nwo = ''A'', predicted_naics = ''54''\<rparr>,
                 \<lparr>pr_nwo = ''B'', predicted_naics = ''54''\<rparr>,
                 \<lparr>pr_nwo = ''C'', predicted_naics = ''62''\<rparr>]\<rparr>"

definition only_claude :: "'a \<Rightarrow> string \<Rightarrow> 'a option" where
  "only_claude df agent = (if agent = ''claude'' then Some df else None)"

definition example_fs :: file_system where
  "example_fs =
     \<lparr>adoption_dir = only_claude example_first_use,
      predictions_dir = only_claude example_predictions\<rparr>"

definition example_fs_D :: file_system where
  "example_fs_D =
     \<lparr>adoption_dir = only_claude example_first_use_D,
      predictions_dir = only_claude example_predictions\<rparr>"

definition example_web_data :: web_data where
  "example_web_data =
     \<lparr>months = [''2024-01'', ''2024-02''],
      industries =
        [\<lparr>code = ''54'', name = ''54: Professional Services'', color = ''#2E86AB'',
          cumulative_values = [2, 2], monthly = [2, 0]\<rparr>,
         \<lparr>code = ''62'', name = ''62: Healthcare'', color = ''#E36397'',
          cumulative_values = [0, 1], monthly = [0, 1]\<rparr>],
      total_repos = 3\<rparr>"

definition example_joined :: merged_frame where
  "example_joined =
     [\<lparr>m_nwo = ''A'', m_first_use_date = utc 2024 1 5, m_predicted_naics = ''54''\<rparr>,
      \<lparr>m_nwo = ''B'', m_first_use_date = utc 2024 1 20, m_predicted_naics = ''54''\<rparr>,
      \<lparr>m_nwo = ''C'', m_first_use_date = utc 2024 2 3, m_predicted_naics = ''62''\<rparr>]"

definition example_adoption :: monthly_adoption where
  "example_adoption =
     \<lparr>month = [''2024-01'', ''2024-02''], new_repos = [2, 1], cumulative_repos = [2, 3]\<rparr>"

text \<open>A first-use table that holds only the repository D: its join is empty.\<close>

definition example_first_use_unmatched :: first_use_frame where
  "example_first_use_unmatched =
     \<lparr>fu_columns = [''repo_nwo'', ''first_claude_commit''],
      fu_rows = [\<lparr>fu_nwo = ''D'', first_use_date = utc 2024 2 9\<rparr>]\<rparr>"

definition example_fs_unmatched :: file_system where
  "example_fs_unmatched =
     \<lparr>adoption_dir = only_claude example_first_use_unmatched,
      predictions_dir = only_claude example_predictions\<rparr>"

text \<open>
  The same first-use rows with the predictions A "62", B "62", C "54": the larger
  industry now has the later label.
\<close>

definition example_predictions_swapped :: predictions_frame where
  "example_predictions_swapped =
     \<lparr>pr_columns = [''nwo'', ''predicted_naics''],
      pr_rows = [\<lparr>pr_nwo = ''A'', predicted_naics = ''62''\<rparr>,
                 \<lparr>pr_nwo = ''B'', predicted_naics = ''62''\<rparr>,
                 \<lparr>pr_nwo = ''C'', predicted_naics = ''54''\<rparr>]\<rparr>"

definition example_fs_swapped :: file_system where
  "example_fs_swapped =
     \<lparr>adoption_dir = only_claude example_first_use,
      predictions_dir = only_claude example_predictions_swapped\<rparr>"

definition example_joined_swapped :: merged_frame where
  "example_joined_swapped =
     [\<lparr>m_nwo = ''A'', m_first_use_date = utc 2024 1 5, m_predicted_naics = ''62''\<rparr>,
      \<lparr>m_nwo = ''B'', m_first_use_date = utc 2024 1 20, m_predicted_naics = ''62''\<rparr>,
      \<lparr>m_nwo = ''C'', m_first_use_date = utc 2024 2 3, m_predicted_naics = ''54''\<rparr>]"

definition example_web_data_swapped :: web_data where
  "example_web_data_swapped =
     \<lparr>months = [''2024-01'', ''2024-02''],
      industries =
        [\<lparr>code = ''62'', name = ''62: Healthcare'', color = ''#E36397'',
          cumulative_values = [2, 2], monthly = [2, 0]\<rparr>,
         \<lparr>code = ''54'', name = ''54: Professional Services'', color = ''#2E86AB'',
          cumulative_values = [0, 1], monthly = [0, 1]\<rparr>],
      total_repos = 3\<rparr>"

text \<open>
  Joined rows in which the classifier's code for two repositories is the string "Other".
\<close>

definition example_joined_other :: merged_frame where
  "example_joined_other =
     [\<lparr>m_nwo = ''A'', m_first_use_date = utc 2024 1 5, m_predicted_naics = ''Other''\<rparr>,
      \<lparr>m_nwo = ''B'', m_first_use_date = utc 2024 1 20, m_predicted_naics = ''Other''\<rparr>,
      \<lparr>m_nwo = ''C'', m_first_use_date = utc 2024 1 23, m_predicted_naics = ''54''\<rparr>]"

text \<open>The worked input as the files of \<^verbatim>\<open>copilot\<close>, the second agent of both loops.\<close>

definition example_fs_copilot :: file_system where
  "example_fs_copilot =
     \<lparr>adoption_dir = (\<lambda>agent. if agent = ''copilot'' then Some example_first_use else None),
      predictions_dir = (\<lambda>agent. if agent = ''copilot'' then Some example_predictions else None)\<rparr>"

text \<open>
  A file system in which every agent has both files, the first-use table of \<^verbatim>\<open>claude\<close>
  under a column label that the loader does not know; and the chart of the worked input.
\<close>

definition example_first_use_mislabelled :: first_use_frame where
  "example_first_use_mislabelled = example_first_use\<lparr>fu_columns := [''nwo'', ''first_commit'']\<rparr>"

definition example_fs_mislabelled :: file_system where
  "example_fs_mislabelled =
     \<lparr>adoption_dir = (\<lambda>agent. Some (if agent = ''claude'' then example_first_use_mislabelled
                                    else example_first_use)),
      predictions_dir = (\<lambda>agent. Some example_predictions)\<rparr>"

definition example_chart :: "string \<Rightarrow> chart" where
  "example_chart agent_name =
     \<lparr>chart_title = ''Monthly Industry Adoption - '' @ agent_name,
      chart_index = [utc 2024 1 1, utc 2024 2 1],
      chart_series = [(''54: Professional Services'', [2, 0]), (''62: Healthcare'', [0, 1])]\<rparr>"

section \<open>Properties\<close>

subsection \<open>Exceptions\<close>

lemma bind_err_Inr_iff: "bind_err m f = Inr y \<longleftrightarrow> (\<exists>x. m = Inr x \<and> f x = Inr y)"
  by (cases m) (auto simp: bind_err_def)

lemma bind_err_Inr [simp]: "bind_err (Inr x) f = f x"
  by (simp add: bind_err_def)

lemma bind_err_Inl [simp]: "bind_err (Inl e) f = Inl e"
  by (simp add: bind_err_def)

subsection \<open>Loader\<close>

lemma normalize_columns_idem:
  "normalize_columns (normalize_columns cols) = normalize_columns cols"
  by (auto simp: normalize_columns_def rename_column_def Let_def)

text \<open>
  Claim C6. The column normalisation of the loader (\<^verbatim>\<open>repo_nwo\<close> to \<^verbatim>\<open>nwo\<close>,
  \<^verbatim>\<open>first_claude_commit\<close> to \<^verbatim>\<open>first_use_date\<close>) is idempotent, on every list
  of column labels and so on every table: normalising twice gives what normalising once
  gives, hence the same column names.
\<close>

theorem normalize_idempotent:
  "normalize_columns (normalize_columns cols) = normalize_columns cols \<and>
   normalize (normalize df) = normalize df \<and>
   set (fu_columns (normalize (normalize df))) = set (fu_columns (normalize df))"
  by (simp add: normalize_def normalize_columns_idem)

subsection \<open>Joiner\<close>

lemma length_inner_join:
  "length (inner_join left right) =
     sum_list (map (\<lambda>l. length (filter (\<lambda>r. pr_nwo r = fu_nwo l) right)) left)"
  by (simp add: inner_join_def length_concat comp_def)

lemma length_filter_distinct_le1:
  "distinct (map f xs) \<Longrightarrow> length (filter (\<lambda>x. f x = k) xs) \<le> 1"
  by (induction xs) (auto simp: image_iff filter_empty_conv)

lemma sum_list_le_length:
  "\<forall>x\<in>set xs. g x \<le> (1::nat) \<Longrightarrow> sum_list (map g xs) \<le> length xs"
proof (induction xs)
  case Nil
  then show ?case by simp
next
  case (Cons a xs)
  then have "g a \<le> 1" and "sum_list (map g xs) \<le> length xs" by auto
  then show ?case by simp
qed

text \<open>Counting the matching pairs row by row of the left table or of the right one.\<close>

lemma match_count_swap:
  "sum_list (map (\<lambda>l. length (filter (\<lambda>r. g r = f l) rs)) ls) =
   sum_list (map (\<lambda>r. length (filter (\<lambda>l. f l = g r) ls)) rs)"
proof (induction ls)
  case Nil
  then show ?case by simp
next
  case (Cons l ls)
  have "length (filter (\<lambda>r. g r = f l) rs) = sum_list (map (\<lambda>r. if f l = g r then 1 else 0) rs)"
    by (induction rs) auto
  then show ?case using Cons
    by (simp add: sum_list_addf [symmetric] cong: map_cong) (rule arg_cong [where f = sum_list], auto)
qed

lemma length_inner_join_le_left:
  assumes "distinct (map pr_nwo right)"
  shows "length (inner_join left right) \<le> length left"
proof -
  have "\<forall>l\<in>set left. length (filter (\<lambda>r. pr_nwo r = fu_nwo l) right) \<le> 1"
    using length_filter_distinct_le1 [OF assms] by blast
  then show ?thesis
    unfolding length_inner_join by (rule sum_list_le_length)
qed

lemma length_inner_join_le_right:
  assumes "distinct (map fu_nwo left)"
  shows "length (inner_join left right) \<le> length right"
proof -
  have "length (inner_join left right) =
        sum_list (map (\<lambda>r. length (filter (\<lambda>l. fu_nwo l = pr_nwo r) left)) right)"
    unfolding length_inner_join by (rule match_count_swap)
  moreover have "\<forall>r\<in>set right. length (filter (\<lambda>l. fu_nwo l = pr_nwo r) left) \<le> 1"
    using length_filter_distinct_le1 [OF assms] by blast
  ultimately show ?thesis
    by (simp add: sum_list_le_length)
qed

lemma merge_predictions_rows:
  "merge_predictions first_use preds = Inr merged \<Longrightarrow>
   merged = inner_join (fu_rows first_use) (pr_rows preds)"
  by (auto simp: merge_predictions_def merge_def select_predictions_def bind_err_def
           split: sum.splits if_splits)

text \<open>
  Claim C3. When the repository identifiers are unique within the first-use rows and
  within the prediction rows, the inner join on \<^verbatim>\<open>nwo\<close> (the merge call of
  \<^verbatim>\<open>generate_overview_table\<close> and of \<^verbatim>\<open>merge_with_predictions\<close>) has at most as many
  rows as the smaller of the two inputs.
\<close>

theorem joined_count_le_min:
  assumes "merge_predictions first_use preds = Inr merged"
    and "distinct (map fu_nwo (fu_rows first_use))"
    and "distinct (map pr_nwo (pr_rows preds))"
  shows "length merged \<le> min (length (fu_rows first_use)) (length (pr_rows preds))"
proof -
  have "merged = inner_join (fu_rows first_use) (pr_rows preds)"
    using assms(1) by (rule merge_predictions_rows)
  then show ?thesis
    using assms(2,3) by (simp add: length_inner_join_le_left length_inner_join_le_right)
qed

theorem joined_count_le_min_witness:
  "distinct (map fu_nwo (fu_rows example_first_use_D)) \<and>
   distinct (map pr_nwo (pr_rows example_predictions)) \<and>
   merge_predictions example_first_use_D example_predictions = Inr example_joined \<and>
   length (fu_rows example_first_use_D) = 4 \<and>
   length (pr_rows example_predictions) = 3 \<and>
   length example_joined = 3 \<and>
   length example_joined \<le>
     min (length (fu_rows example_first_use_D)) (length (pr_rows example_predictions))"
proof -
  have d1: "distinct (map fu_nwo (fu_rows example_first_use_D))"
    by (simp add: example_first_use_D_def example_first_use_def)
  have d2: "distinct (map pr_nwo (pr_rows example_predictions))"
    by (simp add: example_predictions_def)
  have m: "merge_predictions example_first_use_D example_predictions = Inr example_joined"
    by (simp add: merge_predictions_def merge_def select_predictions_def require_column_def
          inner_join_def join_row_def example_first_use_D_def example_first_use_def
          example_predictions_def example_joined_def)
  from joined_count_le_min [OF m d1 d2] d1 d2 m show ?thesis
    by (simp add: example_first_use_D_def example_first_use_def example_predictions_def
          example_joined_def)
qed

subsection \<open>Aggregator\<close>

text \<open>Running sums.\<close>

lemma length_cumsum_from: "length (cumsum_from acc xs) = length xs"
  by (induction xs arbitrary: acc) auto

lemma cumsum_from_lower: "y \<in> set (cumsum_from acc xs) \<Longrightarrow> acc \<le> y"
proof (induction xs arbitrary: acc)
  case Nil
  then show ?case by simp
next
  case (Cons x xs)
  then show ?case by (fastforce dest: Cons.IH)
qed

lemma sorted_cumsum_from: "sorted (cumsum_from acc xs)"
  by (induction xs arbitrary: acc) (auto dest: cumsum_from_lower)

lemma cumsum_from_eq_Nil: "cumsum_from acc xs = [] \<longleftrightarrow> xs = []"
  by (cases xs) auto

lemma last_cumsum_from: "xs \<noteq> [] \<Longrightarrow> last (cumsum_from acc xs) = acc + sum_list xs"
  by (induction xs arbitrary: acc) (auto simp: cumsum_from_eq_Nil)

text \<open>Sorting a sorted index changes nothing.\<close>

lemma sort_index_sorted:
  assumes "sorted (p_index t)" and "\<forall>cv \<in> set (p_columns t). length (snd cv) = length (p_index t)"
  shows "sort_index t = t"
proof -
  have perm: "sort_key (\<lambda>i. p_index t ! i) [0..<length (p_index t)] = [0..<length (p_index t)]"
    by (rule sort_key_id_if_sorted) (simp add: map_nth assms(1))
  have "map (\<lambda>(c, vs). (c, map (\<lambda>i. vs ! i) [0..<length (p_index t)])) (p_columns t) = p_columns t"
  proof (rule map_idI)
    fix cv assume "cv \<in> set (p_columns t)"
    then have "length (snd cv) = length (p_index t)" using assms(2) by blast
    then have "map (\<lambda>i. snd cv ! i) [0..<length (p_index t)] = snd cv"
      by (metis map_nth)
    then show "(case cv of (c, vs) \<Rightarrow> (c, map (\<lambda>i. vs ! i) [0..<length (p_index t)])) = cv"
      by (cases cv) simp
  qed
  then show ?thesis
    by (simp add: sort_index_def perm map_nth)
qed

lemma sort_index_groupby: "sort_index (groupby_size_unstack ks) = groupby_size_unstack ks"
  by (rule sort_index_sorted) (auto simp: groupby_size_unstack_def Let_def)

text \<open>Counting the rows of an industry month by month, and the rows industry by industry.\<close>

lemma count_pairs_over_months:
  assumes "distinct ms" and "fst ` set ks \<subseteq> set ms"
  shows "sum_list (map (\<lambda>m. count_list ks (m, c)) ms) = count_list (map snd ks) c"
  using assms(2)
proof (induction ks)
  case Nil
  then show ?case by simp
next
  case (Cons k ks)
  obtain m' c' where k: "k = (m', c')" by (cases k)
  have m': "m' \<in> set ms" using Cons.prems k by auto
  have ind: "sum_list (map (\<lambda>m. if m = m' then (1::nat) else 0) ms) = 1"
    using assms(1) m' by (induction ms) auto
  have "sum_list (map (\<lambda>m. count_list (k # ks) (m, c)) ms) =
        sum_list (map (\<lambda>m. (if c' = c then (if m = m' then 1 else 0) else 0) + count_list ks (m, c)) ms)"
    by (rule arg_cong [where f = sum_list]) (auto simp: k)
  also have "\<dots> = sum_list (map (\<lambda>m. if c' = c then (if m = m' then 1 else 0) else 0) ms) +
        sum_list (map (\<lambda>m. count_list ks (m, c)) ms)"
    by (simp add: sum_list_addf)
  also have "\<dots> = (if c' = c then 1 else 0) + count_list (map snd ks) c"
    using Cons ind by auto
  finally show ?case by (simp add: k)
qed

lemma sum_count_distinct:
  assumes "distinct cs" and "set xs \<subseteq> set cs"
  shows "sum_list (map (count_list xs) cs) = length xs"
proof -
  have "sum_list (map (count_list xs) cs) = sum (count_list xs) (set cs)"
    using assms(1) by (simp add: sum_list_distinct_conv_sum_set)
  also have "\<dots> = length xs"
    using assms(2) by (simp add: sum_count_set)
  finally show ?thesis .
qed

text \<open>The table that grouping and unstacking build.\<close>

lemma p_index_groupby: "p_index (groupby_size_unstack ks) = sort (remdups (map fst ks))"
  by (simp add: groupby_size_unstack_def Let_def)

lemma p_columns_groupby:
  "p_columns (groupby_size_unstack ks) =
     map (\<lambda>c. (c, month_counts ks c)) (sort (remdups (map snd ks)))"
  by (simp add: groupby_size_unstack_def Let_def month_counts_def)

lemma labels_groupby:
  "map fst (p_columns (groupby_size_unstack ks)) = sort (remdups (map snd ks))"
  by (simp add: p_columns_groupby comp_def)

lemma map_of_graph: "c \<in> set cs \<Longrightarrow> map_of (map (\<lambda>c. (c, f c)) cs) c = Some (f c)"
  by (induction cs) auto

lemma column_groupby:
  "c \<in> set (map snd ks) \<Longrightarrow> column (groupby_size_unstack ks) c = month_counts ks c"
  by (simp add: column_def p_columns_groupby map_of_graph)

lemma column_cumsum_groupby:
  "c \<in> set (map snd ks) \<Longrightarrow>
   column (cumsum (groupby_size_unstack ks)) c = cumsum_from 0 (month_counts ks c)"
  by (simp add: column_def cumsum_def p_columns_groupby comp_def map_of_graph)

lemma length_month_counts: "length (month_counts ks c) = length (sort (remdups (map fst ks)))"
  by (simp add: month_counts_def)

lemma sort_remdups_eq_Nil: "sort (remdups xs) = [] \<longleftrightarrow> xs = []"
  by (metis length_0_conv length_sort remdups_eq_nil_iff)

lemma month_counts_eq_Nil: "month_counts ks c = [] \<longleftrightarrow> ks = []"
  by (simp add: month_counts_def sort_remdups_eq_Nil)

lemma sum_month_counts: "sum_list (month_counts ks c) = count_list (map snd ks) c"
  unfolding month_counts_def by (rule count_pairs_over_months) auto

lemma last_cumsum_month_counts:
  "ks \<noteq> [] \<Longrightarrow> last (cumsum_from 0 (month_counts ks c)) = count_list (map snd ks) c"
  by (simp add: last_cumsum_from month_counts_eq_Nil sum_month_counts)

lemma p_index_cumsum [simp]: "p_index (cumsum t) = p_index t"
  by (simp add: cumsum_def)

lemma labels_cumsum [simp]: "map fst (p_columns (cumsum t)) = map fst (p_columns t)"
  by (simp add: cumsum_def comp_def case_prod_unfold)

text \<open>The industry entries.\<close>

lemma make_entry_groupby:
  assumes "c \<in> set (map snd ks)"
  shows "code (make_entry (cumsum (groupby_size_unstack ks)) (groupby_size_unstack ks) c) = c"
    and "cumulative_values (make_entry (cumsum (groupby_size_unstack ks)) (groupby_size_unstack ks) c)
           = cumsum_from 0 (month_counts ks c)"
    and "monthly (make_entry (cumsum (groupby_size_unstack ks)) (groupby_size_unstack ks) c)
           = month_counts ks c"
  using assms by (simp_all add: make_entry_def column_groupby column_cumsum_groupby)

lemma entries_of_props:
  assumes "e \<in> set (entries_of ks)"
  shows "code e \<in> set (map snd ks)"
    and "cumulative_values e = cumsum_from 0 (month_counts ks (code e))"
    and "monthly e = month_counts ks (code e)"
proof -
  from assms obtain c where c: "c \<in> set (map snd ks)"
    and e: "e = make_entry (cumsum (groupby_size_unstack ks)) (groupby_size_unstack ks) c"
    by (auto simp: entries_of_def)
  show "code e \<in> set (map snd ks)"
    and "cumulative_values e = cumsum_from 0 (month_counts ks (code e))"
    and "monthly e = month_counts ks (code e)"
    using c by (simp_all add: e make_entry_groupby)
qed

lemma map_code_entries_of: "map code (entries_of ks) = sort (remdups (map snd ks))"
  by (rule nth_equalityI) (simp_all add: entries_of_def make_entry_def)

lemma sort_by_final_value_entries:
  "sort_by_final_value (entries_of ks) =
     Inr (sort_reverse (\<lambda>e. last (cumulative_values e)) (entries_of ks))"
proof (cases "ks = []")
  case True
  then show ?thesis by (simp add: sort_by_final_value_def entries_of_def)
next
  case False
  then have "\<forall>e \<in> set (entries_of ks). cumulative_values e \<noteq> []"
    by (auto simp: entries_of_props(2) cumsum_from_eq_Nil month_counts_eq_Nil)
  then show ?thesis by (auto simp: sort_by_final_value_def)
qed

lemma last_row_cumsum_groupby:
  assumes "ks \<noteq> []"
  shows "sum_list (map (\<lambda>(c, vs). last vs) (p_columns (cumsum (groupby_size_unstack ks)))) = length ks"
proof -
  have "map (\<lambda>(c, vs). last vs) (p_columns (cumsum (groupby_size_unstack ks))) =
        map (count_list (map snd ks)) (sort (remdups (map snd ks)))"
    using assms by (simp add: cumsum_def p_columns_groupby comp_def last_cumsum_month_counts)
  then show ?thesis
    by (simp add: sum_count_distinct)
qed

text \<open>
  \<^verbatim>\<open>generate_cumulative_data\<close> in closed form, once the tables are loaded and joined.
\<close>

lemma aggregate_groupby:
  "aggregate_by_month_industry df = groupby_size_unstack (month_industry_keys df)"
  by (simp add: aggregate_by_month_industry_def sort_index_groupby)

lemma generate_cumulative_data_eval:
  assumes "load_and_process fs agent = Inr df"
  shows "generate_cumulative_data fs agent =
     (if df = [] then Inl IndexError
      else Inr \<lparr>months = map period_str (sort (remdups (map year_month df))),
                industries = sort_reverse (\<lambda>e. last (cumulative_values e))
                               (entries_of (month_industry_keys df)),
                total_repos = length df\<rparr>)"
proof -
  let ?ks = "month_industry_keys df"
  let ?t = "groupby_size_unstack ?ks"
  have ks: "?ks = [] \<longleftrightarrow> df = []" by (simp add: month_industry_keys_def)
  have idx: "p_index ?t = sort (remdups (map year_month df))"
    by (simp add: p_index_groupby month_industry_keys_def comp_def)
  have ent: "map (make_entry (cumsum ?t) ?t) (map fst (p_columns (cumsum ?t))) = entries_of ?ks"
    by (simp add: entries_of_def labels_groupby)
  have il: "iloc_last (cumsum ?t) =
        (if df = [] then Inl IndexError
         else Inr (map (\<lambda>(c, vs). last vs) (p_columns (cumsum ?t))))"
    by (simp add: iloc_last_def idx sort_remdups_eq_Nil)
  have step: "generate_cumulative_data fs agent =
      bind_err (iloc_last (cumsum ?t)) (\<lambda>last_row.
        Inr \<lparr>months = map period_str (p_index ?t),
             industries = sort_reverse (\<lambda>e. last (cumulative_values e)) (entries_of ?ks),
             total_repos = sum_list last_row\<rparr>)"
    using ent
    by (simp add: generate_cumulative_data_def assms Let_def sort_by_final_value_entries
          aggregate_groupby del: labels_cumsum map_map)
  show ?thesis
  proof (cases "df = []")
    case True
    with il have "iloc_last (cumsum ?t) = Inl IndexError" by simp
    then have "generate_cumulative_data fs agent = Inl IndexError"
      unfolding step by simp
    with True show ?thesis by simp
  next
    case False
    then have "sum_list (map (\<lambda>(c, vs). last vs) (p_columns (cumsum ?t))) = length ?ks"
      using ks by (intro last_row_cumsum_groupby) simp
    moreover from il False
    have "iloc_last (cumsum ?t) = Inr (map (\<lambda>(c, vs). last vs) (p_columns (cumsum ?t)))"
      by simp
    ultimately have "generate_cumulative_data fs agent =
        Inr \<lparr>months = map period_str (p_index ?t),
             industries = sort_reverse (\<lambda>e. last (cumulative_values e)) (entries_of ?ks),
             total_repos = length ?ks\<rparr>"
      unfolding step by simp
    moreover have "length ?ks = length df" by (simp add: month_industry_keys_def)
    ultimately show ?thesis
      using False by (simp add: idx)
  qed
qed

lemma generate_cumulative_data_Inr:
  assumes "generate_cumulative_data fs agent = Inr d"
  obtains df where "load_and_process fs agent = Inr df" and "df \<noteq> []"
    and "d = \<lparr>months = map period_str (sort (remdups (map year_month df))),
              industries = sort_reverse (\<lambda>e. last (cumulative_values e))
                             (entries_of (month_industry_keys df)),
              total_repos = length df\<rparr>"
proof -
  from assms obtain df where df: "load_and_process fs agent = Inr df"
    by (auto simp: generate_cumulative_data_def bind_err_Inr_iff)
  with assms generate_cumulative_data_eval [OF df] that show thesis
    by (auto split: if_splits)
qed

text \<open>Sorting in reverse.\<close>

lemma set_sort_reverse [simp]: "set (sort_reverse f xs) = set xs"
  by (simp add: sort_reverse_def)

lemma length_sort_reverse [simp]: "length (sort_reverse f xs) = length xs"
  by (simp add: sort_reverse_def)

lemma sorted_wrt_sort_reverse: "sorted_wrt (\<lambda>a b. f b \<le> f a) (sort_reverse f xs)"
proof -
  have "sorted (map f (sort_key f (rev xs)))" by simp
  then have "sorted_wrt (\<lambda>a b. f a \<le> f b) (sort_key f (rev xs))"
    by (simp add: sorted_wrt_map)
  then show ?thesis
    by (simp add: sort_reverse_def sorted_wrt_rev)
qed

lemma sum_list_map_insort_key:
  "sum_list (map g (insort_key f x xs)) = g x + sum_list (map g xs)"
  for g :: "'a \<Rightarrow> nat"
  by (induction xs) auto

lemma sum_list_map_sort_key:
  "sum_list (map g (sort_key f xs)) = sum_list (map g xs)"
  for g :: "'a \<Rightarrow> nat"
  by (induction xs) (auto simp: sum_list_map_insort_key)

lemma sum_list_map_sort_reverse:
  "sum_list (map g (sort_reverse f xs)) = sum_list (map g xs)"
  for g :: "'a \<Rightarrow> nat"
  by (simp add: sort_reverse_def sum_list_map_sort_key rev_map [symmetric])

lemma sum_final_entries_of:
  assumes "ks \<noteq> []"
  shows "sum_list (map (\<lambda>e. last (cumulative_values e)) (entries_of ks)) = length ks"
proof -
  have "map (\<lambda>e. last (cumulative_values e)) (entries_of ks) =
        map (count_list (map snd ks)) (map code (entries_of ks))"
    using assms
    by (auto simp: entries_of_props last_cumsum_month_counts)
  then show ?thesis
    by (simp add: map_code_entries_of sum_count_distinct)
qed

text \<open>What the two aggregating functions read.\<close>

lemma load_and_process_rows:
  assumes "load_and_process fs agent = Inr df"
  obtains first_use preds where "adoption_dir fs agent = Some first_use"
    and "predictions_dir fs agent = Some preds"
    and "df = inner_join (fu_rows first_use) (pr_rows preds)"
  using assms
  by (auto simp: load_and_process_def read_parquet_def bind_err_Inr_iff to_datetime_column_def
        normalize_def merge_predictions_def merge_def select_predictions_def
        split: option.splits if_splits)

lemma generate_monthly_adoption_Inr:
  assumes "generate_monthly_adoption fs agent = Inr a"
  obtains first_use preds where "adoption_dir fs agent = Some first_use"
    and "predictions_dir fs agent = Some preds"
    and "a = (let groups = groupby_size (map year_month (inner_join (fu_rows first_use) (pr_rows preds)))
              in \<lparr>month = map (\<lambda>g. period_str (fst g)) groups,
                  new_repos = map snd groups,
                  cumulative_repos = cumsum_from 0 (map snd groups)\<rparr>)"
  using assms
  by (auto simp: generate_monthly_adoption_def load_predictions_def load_first_use_def
        read_parquet_def bind_err_Inr_iff to_datetime_column_def
        normalize_def merge_predictions_def merge_def select_predictions_def Let_def
        split: option.splits if_splits)

lemma groupby_size_counts:
  "map snd (groupby_size ks) = map (count_list ks) (sort (remdups ks))"
  by (simp add: groupby_size_def comp_def)

lemma sum_groupby_size: "sum_list (map snd (groupby_size ks)) = length ks"
  by (simp add: groupby_size_counts sum_count_distinct)

lemma groupby_size_eq_Nil: "groupby_size ks = [] \<longleftrightarrow> ks = []"
  by (simp add: groupby_size_def sort_remdups_eq_Nil)

subsection \<open>The worked input\<close>

lemmas example_defs = example_fs_def example_fs_D_def example_fs_unmatched_def
  example_fs_swapped_def only_claude_def
  example_first_use_def example_first_use_D_def example_first_use_unmatched_def
  example_predictions_def example_predictions_swapped_def
  example_joined_def example_joined_swapped_def utc_def

lemmas load_defs = load_and_process_def load_predictions_def load_first_use_def
  read_parquet_def normalize_def normalize_columns_def
  rename_column_def to_datetime_column_def require_column_def merge_predictions_def
  select_predictions_def merge_def inner_join_def join_row_def bind_err_def Let_def

lemma example_files:
  "adoption_dir example_fs ''claude'' = Some example_first_use"
  "predictions_dir example_fs ''claude'' = Some example_predictions"
  "example_joined = inner_join (fu_rows example_first_use) (pr_rows example_predictions)"
  by (simp_all add: example_defs inner_join_def join_row_def)

lemma example_load: "load_and_process example_fs ''claude'' = Inr example_joined"
  by (simp add: example_defs load_defs)

lemma example_load_D: "load_and_process example_fs_D ''claude'' = Inr example_joined"
  by (simp add: example_defs load_defs)

lemma example_load_unmatched: "load_and_process example_fs_unmatched ''claude'' = Inr []"
  by (simp add: example_defs load_defs)

lemma example_load_swapped:
  "load_and_process example_fs_swapped ''claude'' = Inr example_joined_swapped"
  by (simp add: example_defs load_defs)

lemma period_str_648: "period_str 648 = ''2024-01''"
  by code_simp

lemma period_str_649: "period_str 649 = ''2024-02''"
  by code_simp

lemma label_order: "''54'' \<le> ''62''" "\<not> ''62'' \<le> ''54''"
  by code_simp+

lemma example_months:
  "sort (remdups (map year_month example_joined)) = [648, 649]"
  "sort (remdups (map year_month example_joined_swapped)) = [648, 649]"
  by (simp_all add: example_defs year_month_def to_period_M_def)

lemma example_keys:
  "month_industry_keys example_joined = [(648, ''54''), (648, ''54''), (649, ''62'')]"
  "month_industry_keys example_joined_swapped = [(648, ''62''), (648, ''62''), (649, ''54'')]"
  by (simp_all add: example_defs month_industry_keys_def year_month_def to_period_M_def)

lemma example_pivot:
  "groupby_size_unstack [(648, ''54''), (648, ''54''), (649, ''62'')] =
     \<lparr>p_index = [648, 649], p_columns = [(''54'', [2, 0]), (''62'', [0, 1])]\<rparr>"
  "groupby_size_unstack [(648, ''62''), (648, ''62''), (649, ''54'')] =
     \<lparr>p_index = [648, 649], p_columns = [(''54'', [0, 1]), (''62'', [2, 0])]\<rparr>"
  by (simp_all add: groupby_size_unstack_def Let_def label_order)

lemmas entry_defs = entries_of_def cumsum_def make_entry_def column_def dict_get_def
  NAICS_DESCRIPTIONS_web_def INDUSTRY_COLORS_def sort_reverse_def label_order

lemma example_entries:
  "sort_reverse (\<lambda>e. last (cumulative_values e))
     (entries_of [(648, ''54''), (648, ''54''), (649, ''62'')]) = industries example_web_data"
  "sort_reverse (\<lambda>e. last (cumulative_values e))
     (entries_of [(648, ''62''), (648, ''62''), (649, ''54'')]) = industries example_web_data_swapped"
  by (simp_all add: example_pivot entry_defs example_web_data_def example_web_data_swapped_def)

lemma generate_cumulative_data_example:
  assumes "load_and_process fs agent = Inr example_joined"
  shows "generate_cumulative_data fs agent = Inr example_web_data"
  using generate_cumulative_data_eval [OF assms]
  by (simp add: example_months example_keys example_entries period_str_648 period_str_649)
     (simp add: example_web_data_def example_joined_def)

lemma example_gcd: "generate_cumulative_data example_fs ''claude'' = Inr example_web_data"
  using example_load by (rule generate_cumulative_data_example)

lemma example_gcd_D: "generate_cumulative_data example_fs_D ''claude'' = Inr example_web_data"
  using example_load_D by (rule generate_cumulative_data_example)

lemma example_gcd_swapped:
  "generate_cumulative_data example_fs_swapped ''claude'' = Inr example_web_data_swapped"
  using generate_cumulative_data_eval [OF example_load_swapped]
  by (simp add: example_months example_keys example_entries period_str_648 period_str_649)
     (simp add: example_web_data_swapped_def example_joined_swapped_def)

lemma example_gcd_unmatched:
  "generate_cumulative_data example_fs_unmatched ''claude'' = Inl IndexError"
  using generate_cumulative_data_eval [OF example_load_unmatched] by simp

lemma example_gma: "generate_monthly_adoption example_fs ''claude'' = Inr example_adoption"
proof -
  have "merge_predictions example_first_use example_predictions = Inr example_joined"
    by (simp add: example_defs load_defs)
  then have "generate_monthly_adoption example_fs ''claude'' =
      (let groups = groupby_size (map year_month example_joined)
       in Inr \<lparr>month = map (\<lambda>g. period_str (fst g)) groups, new_repos = map snd groups,
               cumulative_repos = cumsum_from 0 (map snd groups)\<rparr>)"
    by (simp add: generate_monthly_adoption_def load_predictions_def load_first_use_def
          read_parquet_def normalize_def normalize_columns_def to_datetime_column_def
          require_column_def example_fs_def only_claude_def example_first_use_def)
  moreover have "groupby_size (map year_month example_joined) = [(648, 2), (649, 1)]"
    by (simp add: groupby_size_def example_months)
       (simp add: example_defs year_month_def to_period_M_def)
  ultimately show ?thesis
    by (simp add: period_str_648 period_str_649 example_adoption_def)
qed

text \<open>
  Claim C4. On the first-use rows A, B, C of 2024-01, 2024-01, 2024-02 with the
  predictions A "54", B "54", C "62", \<^verbatim>\<open>generate_cumulative_data\<close> returns the months
  2024-01 and 2024-02, the monthly counts 2 and 0 for "54" and 0 and 1 for "62", the
  cumulative values 2, 2 for "54" and 0, 1 for "62", and \<^verbatim>\<open>total_repos = 3\<close>; a
  first-use row for a repository D without a prediction changes nothing.
\<close>

theorem example_cumulative_data:
  "generate_cumulative_data example_fs ''claude'' = Inr example_web_data \<and>
   generate_cumulative_data example_fs_D ''claude'' = Inr example_web_data"
  by (simp add: example_gcd example_gcd_D)

subsection \<open>The cumulative series and the exported structure\<close>

text \<open>
  Claim C1 (amended). With \<open>joined\<close> the inner join of an agent's two tables: each
  \<^verbatim>\<open>values\<close> array of \<^verbatim>\<open>generate_cumulative_data\<close> runs over the ascending distinct
  months, is non-decreasing, and ends with the number of joined records of its industry;
  \<^verbatim>\<open>cumulative_repos\<close> of \<^verbatim>\<open>generate_monthly_adoption\<close> is one series over all
  industries, runs over the same months, is non-decreasing, and ends with the number of
  all joined records.
\<close>

theorem cumulative_series:
  assumes "adoption_dir fs agent = Some first_use"
    and "predictions_dir fs agent = Some preds"
    and "joined = inner_join (fu_rows first_use) (pr_rows preds)"
  shows "(generate_cumulative_data fs agent = Inr d \<longrightarrow>
            months d = map period_str (sort (remdups (map year_month joined))) \<and>
            (\<forall>e \<in> set (industries d).
               length (cumulative_values e) = length (months d) \<and>
               sorted (cumulative_values e) \<and>
               cumulative_values e \<noteq> [] \<and>
               last (cumulative_values e) = count_list (map m_predicted_naics joined) (code e))) \<and>
         (generate_monthly_adoption fs agent = Inr a \<longrightarrow>
            month a = map period_str (sort (remdups (map year_month joined))) \<and>
            length (cumulative_repos a) = length (month a) \<and>
            sorted (cumulative_repos a) \<and>
            (joined \<noteq> [] \<longrightarrow>
               cumulative_repos a \<noteq> [] \<and> last (cumulative_repos a) = length joined))"
proof (intro conjI impI)
  assume d: "generate_cumulative_data fs agent = Inr d"
  then obtain df where df: "load_and_process fs agent = Inr df" and ne: "df \<noteq> []"
    and dd: "d = \<lparr>months = map period_str (sort (remdups (map year_month df))),
              industries = sort_reverse (\<lambda>e. last (cumulative_values e))
                             (entries_of (month_industry_keys df)),
              total_repos = length df\<rparr>"
    by (rule generate_cumulative_data_Inr)
  from df assms have j: "df = joined"
    by (auto elim: load_and_process_rows)
  show "months d = map period_str (sort (remdups (map year_month joined)))"
    by (simp add: dd j)
  show "\<forall>e \<in> set (industries d).
               length (cumulative_values e) = length (months d) \<and>
               sorted (cumulative_values e) \<and>
               cumulative_values e \<noteq> [] \<and>
               last (cumulative_values e) = count_list (map m_predicted_naics joined) (code e)"
  proof
    fix e assume "e \<in> set (industries d)"
    then have e: "e \<in> set (entries_of (month_industry_keys df))" by (simp add: dd)
    have ks: "month_industry_keys df \<noteq> []" using ne by (simp add: month_industry_keys_def)
    have fst: "map fst (month_industry_keys df) = map year_month df"
      and snd: "map snd (month_industry_keys df) = map m_predicted_naics df"
      by (simp_all add: month_industry_keys_def comp_def)
    show "length (cumulative_values e) = length (months d) \<and>
               sorted (cumulative_values e) \<and>
               cumulative_values e \<noteq> [] \<and>
               last (cumulative_values e) = count_list (map m_predicted_naics joined) (code e)"
      using ks
      by (simp add: entries_of_props(2) [OF e] length_cumsum_from length_month_counts
            sorted_cumsum_from cumsum_from_eq_Nil month_counts_eq_Nil
            last_cumsum_month_counts fst snd dd j [symmetric])
  qed
next
  assume a: "generate_monthly_adoption fs agent = Inr a"
  then obtain fu pr where "adoption_dir fs agent = Some fu" "predictions_dir fs agent = Some pr"
    and aa: "a = (let groups = groupby_size (map year_month (inner_join (fu_rows fu) (pr_rows pr)))
              in \<lparr>month = map (\<lambda>g. period_str (fst g)) groups,
                  new_repos = map snd groups,
                  cumulative_repos = cumsum_from 0 (map snd groups)\<rparr>)"
    by (rule generate_monthly_adoption_Inr)
  with assms have a': "a = (let groups = groupby_size (map year_month joined)
              in \<lparr>month = map (\<lambda>g. period_str (fst g)) groups,
                  new_repos = map snd groups,
                  cumulative_repos = cumsum_from 0 (map snd groups)\<rparr>)"
    by simp
  show "month a = map period_str (sort (remdups (map year_month joined)))"
    by (simp add: a' Let_def groupby_size_def comp_def)
  show "length (cumulative_repos a) = length (month a)"
    by (simp add: a' Let_def length_cumsum_from)
  show "sorted (cumulative_repos a)"
    by (simp add: a' Let_def sorted_cumsum_from)
  assume "joined \<noteq> []"
  then show "cumulative_repos a \<noteq> []" and "last (cumulative_repos a) = length joined"
    by (simp_all add: a' Let_def cumsum_from_eq_Nil groupby_size_eq_Nil last_cumsum_from
          sum_groupby_size)
qed

theorem cumulative_series_witness:
  "adoption_dir example_fs ''claude'' = Some example_first_use \<and>
   predictions_dir example_fs ''claude'' = Some example_predictions \<and>
   example_joined = inner_join (fu_rows example_first_use) (pr_rows example_predictions) \<and>
   example_joined \<noteq> [] \<and>
   generate_cumulative_data example_fs ''claude'' = Inr example_web_data \<and>
   generate_monthly_adoption example_fs ''claude'' = Inr example_adoption \<and>
   list_all (\<lambda>e. sorted (cumulative_values e) \<and>
               last (cumulative_values e) =
                 count_list (map m_predicted_naics example_joined) (code e))
     (industries example_web_data) \<and>
   sorted (cumulative_repos example_adoption) \<and>
   last (cumulative_repos example_adoption) = length example_joined"
proof -
  have ne: "example_joined \<noteq> []" by (simp add: example_joined_def)
  from cumulative_series [OF example_files, of example_web_data example_adoption]
    example_gcd example_gma ne
  have "(\<forall>e \<in> set (industries example_web_data). sorted (cumulative_values e) \<and>
               last (cumulative_values e) =
                 count_list (map m_predicted_naics example_joined) (code e)) \<and>
        sorted (cumulative_repos example_adoption) \<and>
        last (cumulative_repos example_adoption) = length example_joined"
    by blast
  then show ?thesis
    using example_files example_gcd example_gma ne by (simp add: list_all_iff)
qed

text \<open>
  The claim as stated counts \<^verbatim>\<open>cumulative_repos\<close> among the per-industry series. On
  the worked input it ends with 3, the number of all joined records, while the two
  industries have 2 and 1.
\<close>

theorem cumulative_repos_not_per_industry:
  "generate_monthly_adoption example_fs ''claude'' = Inr example_adoption \<and>
   last (cumulative_repos example_adoption) = 3 \<and>
   set (map m_predicted_naics example_joined) = {''54'', ''62''} \<and>
   count_list (map m_predicted_naics example_joined) ''54'' = 2 \<and>
   count_list (map m_predicted_naics example_joined) ''62'' = 1"
  by (simp add: example_gma) (auto simp: example_adoption_def example_joined_def)



text \<open>
  Claim C7. The columns of the month-by-industry table are exactly the industry codes of
  the joined records, and so are the codes of the industry entries of
  \<^verbatim>\<open>generate_cumulative_data\<close>, each of which ends with a positive count: a code that
  occurs in no joined record appears nowhere in the output.
\<close>

theorem industries_are_those_joined:
  "set (map fst (p_columns (aggregate_by_month_industry df))) = set (map m_predicted_naics df) \<and>
   (load_and_process fs agent = Inr df' \<longrightarrow>
    generate_cumulative_data fs agent = Inr d \<longrightarrow>
      set (map code (industries d)) = set (map m_predicted_naics df') \<and>
      (\<forall>e \<in> set (industries d). 0 < last (cumulative_values e)))"
proof (intro conjI impI)
  show "set (map fst (p_columns (aggregate_by_month_industry df))) = set (map m_predicted_naics df)"
    by (simp add: aggregate_groupby labels_groupby month_industry_keys_def comp_def)
next
  assume l: "load_and_process fs agent = Inr df'"
    and d: "generate_cumulative_data fs agent = Inr d"
  from d l have ne: "df' \<noteq> []" and
    ind: "industries d = sort_reverse (\<lambda>e. last (cumulative_values e))
                             (entries_of (month_industry_keys df'))"
    by (auto simp: generate_cumulative_data_eval split: if_splits)
  have snd: "map snd (month_industry_keys df') = map m_predicted_naics df'"
    by (simp add: month_industry_keys_def comp_def)
  have "set (map code (industries d)) = set (map code (entries_of (month_industry_keys df')))"
    by (simp add: ind)
  then show "set (map code (industries d)) = set (map m_predicted_naics df')"
    by (simp only: map_code_entries_of snd set_sort set_remdups)
  show "\<forall>e \<in> set (industries d). 0 < last (cumulative_values e)"
  proof
    fix e assume "e \<in> set (industries d)"
    then have e: "e \<in> set (entries_of (month_industry_keys df'))" by (simp add: ind)
    have ks: "month_industry_keys df' \<noteq> []" using ne by (simp add: month_industry_keys_def)
    have "last (cumulative_values e) = count_list (map snd (month_industry_keys df')) (code e)"
      using ks by (simp add: entries_of_props(2) [OF e] last_cumsum_month_counts)
    moreover have "code e \<in> set (map snd (month_industry_keys df'))"
      using e by (rule entries_of_props(1))
    ultimately show "0 < last (cumulative_values e)"
      using count_list_0_iff [of "map snd (month_industry_keys df')" "code e"] by linarith
  qed
qed

theorem industries_are_those_joined_witness:
  "load_and_process example_fs ''claude'' = Inr example_joined \<and>
   generate_cumulative_data example_fs ''claude'' = Inr example_web_data \<and>
   set (map fst (p_columns (aggregate_by_month_industry example_joined))) = {''54'', ''62''} \<and>
   set (map code (industries example_web_data)) = {''54'', ''62''} \<and>
   set (map m_predicted_naics example_joined) = {''54'', ''62''}"
proof -
  have s: "set (map m_predicted_naics example_joined) = {''54'', ''62''}"
    by (auto simp: example_joined_def)
  from industries_are_those_joined [of example_joined example_fs "''claude''" example_joined
      example_web_data] example_load example_gcd
  have "set (map fst (p_columns (aggregate_by_month_industry example_joined))) =
          set (map m_predicted_naics example_joined)"
    and "set (map code (industries example_web_data)) = set (map m_predicted_naics example_joined)"
    by blast+
  then show ?thesis
    using example_load example_gcd s by simp
qed

text \<open>
  Claim C8. The industry entries that \<^verbatim>\<open>generate_cumulative_data\<close> returns are in
  descending order of their final cumulative value: every entry's final value is at
  least that of every later entry, in particular of the next one.
\<close>

theorem industries_sorted_descending:
  assumes "generate_cumulative_data fs agent = Inr d"
  shows "sorted_wrt (\<lambda>a b. last (cumulative_values b) \<le> last (cumulative_values a)) (industries d) \<and>
         (\<forall>i. Suc i < length (industries d) \<longrightarrow>
            last (cumulative_values (industries d ! Suc i))
              \<le> last (cumulative_values (industries d ! i))) \<and>
         (\<forall>e \<in> set (industries d). cumulative_values e \<noteq> [])"
proof -
  from assms obtain df where ne: "df \<noteq> []"
    and ind: "industries d = sort_reverse (\<lambda>e. last (cumulative_values e))
                             (entries_of (month_industry_keys df))"
    by (rule generate_cumulative_data_Inr) simp
  have s: "sorted_wrt (\<lambda>a b. last (cumulative_values b) \<le> last (cumulative_values a)) (industries d)"
    unfolding ind by (rule sorted_wrt_sort_reverse)
  have adj: "\<forall>i. Suc i < length (industries d) \<longrightarrow>
            last (cumulative_values (industries d ! Suc i))
              \<le> last (cumulative_values (industries d ! i))"
    using s by (auto simp: sorted_wrt_iff_nth_less)
  have ks: "month_industry_keys df \<noteq> []" using ne by (simp add: month_industry_keys_def)
  have "\<forall>e \<in> set (industries d). cumulative_values e \<noteq> []"
    using ks by (auto simp: ind entries_of_props(2) cumsum_from_eq_Nil month_counts_eq_Nil)
  with s adj show ?thesis by blast
qed

theorem industries_sorted_descending_witness:
  "generate_cumulative_data example_fs_swapped ''claude'' = Inr example_web_data_swapped \<and>
   map code (industries example_web_data_swapped) = [''62'', ''54''] \<and>
   map (\<lambda>e. last (cumulative_values e)) (industries example_web_data_swapped) = [2, 1] \<and>
   sorted_wrt (\<lambda>a b. last (cumulative_values b) \<le> last (cumulative_values a))
     (industries example_web_data_swapped)"
  using industries_sorted_descending [OF example_gcd_swapped] example_gcd_swapped
  by (simp add: example_web_data_swapped_def)



subsection \<open>The chart data\<close>

lemma wf_pivot_groupby: "wf_pivot (groupby_size_unstack ks)"
proof -
  have "distinct (map fst (p_columns (groupby_size_unstack ks)))"
    by (simp only: labels_groupby distinct_sort distinct_remdups)
  moreover have "list_all (\<lambda>cv. length (snd cv) = length (p_index (groupby_size_unstack ks)))
                   (p_columns (groupby_size_unstack ks))"
    by (simp add: p_columns_groupby p_index_groupby list_all_iff length_month_counts)
  ultimately show ?thesis by (simp only: wf_pivot_def simp_thms)
qed

lemma wf_pivot_aggregate: "wf_pivot (aggregate_by_month_industry df)"
  by (simp add: aggregate_groupby wf_pivot_groupby)

lemma filter_label:
  assumes "distinct (map fst cols)" and "l \<in> set (map fst cols)"
  shows "filter (\<lambda>cv. fst cv = l) cols = [(l, the (map_of cols l))]"
  using assms
proof (induction cols)
  case Nil
  then show ?case by simp
next
  case (Cons cv cols)
  show ?case
  proof (cases "fst cv = l")
    case True
    with Cons.prems have "\<forall>x \<in> set cols. fst x \<noteq> l" by (auto simp: image_iff)
    then have "filter (\<lambda>cv. fst cv = l) cols = []" by (simp add: filter_empty_conv)
    with True show ?thesis by (cases cv) auto
  next
    case False
    with Cons show ?thesis by (cases cv) auto
  qed
qed

lemma column_the:
  "l \<in> set (map fst (p_columns t)) \<Longrightarrow> column t l = the (map_of (p_columns t) l)"
  by (auto simp: column_def map_of_eq_None_iff split: option.splits)

lemma select_columns_distinct:
  assumes "distinct (map fst (p_columns t))" and "set ls \<subseteq> set (map fst (p_columns t))"
  shows "select_columns t ls = map (\<lambda>l. (l, column t l)) ls"
  using assms(2)
proof (induction ls)
  case Nil
  then show ?case by (simp add: select_columns_def)
next
  case (Cons l ls)
  then have l: "l \<in> set (map fst (p_columns t))" by simp
  have "select_columns t (l # ls) = filter (\<lambda>cv. fst cv = l) (p_columns t) @ select_columns t ls"
    by (simp add: select_columns_def)
  with Cons l show ?case
    by (simp add: filter_label [OF assms(1) l] column_the del: set_map)
qed

lemma head_take:
  "head n xs = take (if 0 \<le> n then nat n else length xs - nat (- n)) xs"
  by (simp add: head_def)

lemma sorted_wrt_take_drop:
  assumes "sorted_wrt P xs" and "x \<in> set (take m xs)" and "y \<in> set (drop m xs)"
  shows "P x y"
proof -
  have "sorted_wrt P (take m xs @ drop m xs)" using assms(1) by simp
  then show ?thesis using assms(2,3) unfolding sorted_wrt_append by blast
qed

lemma distinct_map_sort_reverse:
  "distinct (map g (sort_reverse f xs)) \<longleftrightarrow> distinct (map g xs)"
  by (simp add: distinct_map sort_reverse_def)

lemma labels_column_totals: "map fst (column_totals t) = map fst (p_columns t)"
  by (simp add: column_totals_def comp_def)

lemma column_of_label:
  assumes "distinct (map fst (p_columns t))" and "cv \<in> set (p_columns t)"
  shows "column t (fst cv) = snd cv"
  using assms by (cases cv) (simp add: column_def)

lemma column_totals_entry:
  assumes "distinct (map fst (p_columns t))" and "lv \<in> set (column_totals t)"
  shows "snd lv = column_total t (fst lv)"
proof -
  from assms(2) obtain cv where cv: "cv \<in> set (p_columns t)"
    and lv: "lv = (fst cv, sum_list (snd cv))"
    by (auto simp: column_totals_def)
  from column_of_label [OF assms(1) cv] lv show ?thesis
    by (simp add: column_total_def)
qed

text \<open>The sorted totals, split where \<^verbatim>\<open>head\<close> cuts them.\<close>

lemma top_industries_split:
  obtains m where
    "top_industries t n = map fst (take m (sort_values_descending (column_totals t)))"
    and "(0 \<le> n \<longrightarrow> m = nat n)"
  by (simp add: top_industries_def head_take split: if_splits)

lemma sorted_totals:
  "sorted_wrt (\<lambda>a b. snd b \<le> snd a) (sort_values_descending (column_totals t))"
  "set (sort_values_descending (column_totals t)) = set (column_totals t)"
  "length (sort_values_descending (column_totals t)) = length (p_columns t)"
  by (simp_all add: sort_values_descending_def sorted_wrt_sort_reverse column_totals_def)

lemma distinct_sorted_totals:
  "distinct (map fst (p_columns t)) \<Longrightarrow>
   distinct (map fst (sort_values_descending (column_totals t)))"
  by (simp add: sort_values_descending_def distinct_map_sort_reverse labels_column_totals)

lemma set_labels_sorted_totals:
  "set (map fst (sort_values_descending (column_totals t))) = set (map fst (p_columns t))"
  by (simp only: set_map sorted_totals(2)) (simp add: column_totals_def image_image)

lemma top_industries_props:
  assumes "distinct (map fst (p_columns t))"
  shows "distinct (top_industries t n)"
    and "set (top_industries t n) \<subseteq> set (map fst (p_columns t))"
    and "0 \<le> n \<Longrightarrow> length (top_industries t n) = min (nat n) (length (p_columns t))"
    and "\<lbrakk>k \<in> set (top_industries t n); c \<in> set (other_cols t n)\<rbrakk>
           \<Longrightarrow> column_total t c \<le> column_total t k"
proof -
  let ?srt = "sort_values_descending (column_totals t)"
  obtain m where top: "top_industries t n = map fst (take m ?srt)"
    and m: "0 \<le> n \<longrightarrow> m = nat n"
    by (rule top_industries_split)
  have d: "distinct (map fst ?srt)" using assms by (rule distinct_sorted_totals)
  have split: "map fst ?srt = map fst (take m ?srt) @ map fst (drop m ?srt)"
    by (simp add: map_append [symmetric] del: map_append)
  show "distinct (top_industries t n)"
    using d by (simp add: top take_map [symmetric])
  show sub: "set (top_industries t n) \<subseteq> set (map fst (p_columns t))"
    unfolding top set_labels_sorted_totals [symmetric]
    by (metis set_take_subset take_map)
  show "0 \<le> n \<Longrightarrow> length (top_industries t n) = min (nat n) (length (p_columns t))"
    using m by (simp add: top sorted_totals(3) min.commute)
  assume k: "k \<in> set (top_industries t n)" and c: "c \<in> set (other_cols t n)"
  from k obtain kv where kv: "kv \<in> set (take m ?srt)" and fk: "fst kv = k"
    by (auto simp: top)
  from c have ol: "c \<in> set (map fst ?srt)" and on: "c \<notin> set (map fst (take m ?srt))"
    by (auto simp: other_cols_def top set_labels_sorted_totals simp del: set_map)
  then have "c \<in> set (map fst (drop m ?srt))"
    using split by (metis Un_iff set_append)
  then obtain ov where ov: "ov \<in> set (drop m ?srt)" and fo: "fst ov = c"
    by auto
  have "snd ov \<le> snd kv"
    using sorted_totals(1) kv ov by (rule sorted_wrt_take_drop)
  moreover have "kv \<in> set (column_totals t)" "ov \<in> set (column_totals t)"
    using kv ov sorted_totals(2) [of t] by (auto dest: in_set_takeD in_set_dropD)
  ultimately show "column_total t c \<le> column_total t k"
    using column_totals_entry [OF assms] fk fo by metis
qed

lemma other_cols_props:
  assumes "distinct (map fst (p_columns t))"
  shows "distinct (other_cols t n)"
    and "set (other_cols t n) = set (map fst (p_columns t)) - set (top_industries t n)"
  using assms by (auto simp: other_cols_def)

lemma sum_axis1_labels:
  "sum_axis1 n (map (\<lambda>l. (l, column t l)) ls) =
     map (\<lambda>i. sum_list (map (\<lambda>l. column t l ! i) ls)) [0..<n]"
  by (simp add: sum_axis1_def comp_def)

lemma row_total_labels:
  "row_total (map (\<lambda>l. (l, column t l)) ls) i = sum_list (map (\<lambda>l. column t l ! i) ls)"
  by (simp add: row_total_def comp_def)

lemma row_total_columns:
  assumes "distinct (map fst (p_columns t))"
  shows "row_total (p_columns t) i = sum_list (map (\<lambda>l. column t l ! i) (map fst (p_columns t)))"
proof -
  have "map (\<lambda>cv. snd cv ! i) (p_columns t) = map (\<lambda>cv. column t (fst cv) ! i) (p_columns t)"
    using column_of_label [OF assms] by (intro map_cong) simp_all
  then show ?thesis by (simp only: row_total_def map_map comp_def)
qed

lemma plot_data_columns:
  assumes "distinct (map fst (p_columns t))" and "''Other'' \<notin> set (top_industries t n)"
  shows "p_columns (plot_data t n) =
     map (\<lambda>k. (k, column t k)) (top_industries t n) @
     (if other_cols t n = [] then []
      else [(''Other'', map (\<lambda>i. sum_list (map (\<lambda>c. column t c ! i) (other_cols t n)))
                          [0..<length (p_index t)])])"
proof -
  have kept: "select_columns t (top_industries t n) = map (\<lambda>k. (k, column t k)) (top_industries t n)"
    using assms(1) top_industries_props(2) [OF assms(1)] by (rule select_columns_distinct)
  have "set (other_cols t n) \<subseteq> set (map fst (p_columns t))"
    using other_cols_props(2) [OF assms(1)] by blast
  with assms(1) have oth: "select_columns t (other_cols t n) = map (\<lambda>l. (l, column t l)) (other_cols t n)"
    by (rule select_columns_distinct)
  have "''Other'' \<notin> set (map fst (map (\<lambda>k. (k, column t k)) (top_industries t n)))"
    using assms(2) by (simp add: comp_def)
  then show ?thesis
    by (simp add: plot_data_def Let_def kept oth set_column_def sum_axis1_labels del: set_map)
qed

lemma plot_data_row_total:
  assumes "distinct (map fst (p_columns t))" and "''Other'' \<notin> set (top_industries t n)"
    and "i < length (p_index t)"
  shows "row_total (p_columns (plot_data t n)) i = row_total (p_columns t) i"
proof -
  let ?f = "\<lambda>l. column t l ! i"
  let ?top = "top_industries t n" and ?oth = "other_cols t n"
  have "row_total (p_columns (plot_data t n)) i =
          sum_list (map ?f ?top) + sum_list (map ?f ?oth)"
    using assms(3)
    by (simp add: plot_data_columns [OF assms(1,2)] row_total_def comp_def)
  also have "\<dots> = sum_list (map ?f (?top @ ?oth))" by simp
  also have "\<dots> = sum ?f (set (?top @ ?oth))"
    using top_industries_props(1) [OF assms(1), of n] other_cols_props [OF assms(1), of n]
    by (intro sum_list_distinct_conv_sum_set) auto
  also have "set (?top @ ?oth) = set (map fst (p_columns t))"
    using top_industries_props(2) [OF assms(1), of n] other_cols_props(2) [OF assms(1), of n]
    by auto
  also have "sum ?f (set (map fst (p_columns t))) = sum_list (map ?f (map fst (p_columns t)))"
    using assms(1) by (rule sum_list_distinct_conv_sum_set [symmetric])
  also have "\<dots> = row_total (p_columns t) i"
    using assms(1) by (rule row_total_columns [symmetric])
  finally show ?thesis .
qed


lemma label_order_other: "''54'' \<le> ''Other''" "\<not> ''Other'' \<le> ''54''"
  by code_simp+

lemma example_aggregate:
  "aggregate_by_month_industry example_joined =
     \<lparr>p_index = [648, 649], p_columns = [(''54'', [2, 0]), (''62'', [0, 1])]\<rparr>"
  by (simp add: aggregate_groupby example_keys example_pivot)

lemma example_aggregate_other:
  "aggregate_by_month_industry example_joined_other =
     \<lparr>p_index = [648], p_columns = [(''54'', [1]), (''Other'', [2])]\<rparr>"
  by (simp add: aggregate_groupby groupby_size_unstack_def Let_def month_industry_keys_def
        example_joined_other_def utc_def year_month_def to_period_M_def label_order_other)

lemmas plot_defs = top_industries_def other_cols_def column_totals_def
  sort_values_descending_def sort_reverse_def head_def plot_data_def select_columns_def
  set_column_def sum_axis1_def Let_def



subsection \<open>Driver loops\<close>

lemma export_agent_eq:
  "export_agent fs agent st =
     st\<lparr>web_files := web_files st @ (case exported_file fs agent of None \<Rightarrow> [] | Some f \<Rightarrow> [f]),
        printed := printed st @ printed_lines fs agent\<rparr>"
  by (simp add: export_agent_def exported_file_def printed_lines_def Let_def split: sum.splits)

lemma export_loop_eq:
  "export_loop fs agents st =
     st\<lparr>web_files := web_files st @ List.map_filter (exported_file fs) agents,
        printed := printed st @ concat (map (printed_lines fs) agents)\<rparr>"
proof (induction agents arbitrary: st)
  case Nil
  then show ?case by (simp add:)
next
  case (Cons agent agents)
  show ?case
    by (simp add: Cons.IH export_agent_eq split: option.splits)
qed

lemma generate_cumulative_data_missing_file:
  assumes "adoption_dir fs agent = None \<or> predictions_dir fs agent = None"
  shows "generate_cumulative_data fs agent = Inl FileNotFoundError"
  using assms
  by (auto simp: generate_cumulative_data_def load_and_process_def read_parquet_def
        split: option.splits)

lemma process_agent_missing_file:
  "adoption_dir fs agent_key = None \<Longrightarrow>
     process_agent fs agent_name agent_key = Inl FileNotFoundError"
  "load_first_use fs agent_key = Inr first_use \<Longrightarrow> predictions_dir fs agent_key = None \<Longrightarrow>
     process_agent fs agent_name agent_key = Inl FileNotFoundError"
  by (simp_all add: process_agent_def load_first_use_def merge_with_predictions_def
        read_parquet_def)

lemma plot_loop_isolated:
  assumes "\<forall>a \<in> set agents. \<forall>e. process_agent fs (fst a) (snd a) = Inl e \<longrightarrow> e = FileNotFoundError"
  shows "plot_loop fs agents st =
     (st\<lparr>figures := figures st @ List.map_filter (saved_figure fs) agents,
         warnings := warnings st @ map fst (filter (data_not_found fs) agents)\<rparr>, None)"
  using assms
proof (induction agents arbitrary: st)
  case Nil
  then show ?case by (simp add:)
next
  case (Cons a agents)
  then have rest: "\<forall>a \<in> set agents. \<forall>e. process_agent fs (fst a) (snd a) = Inl e \<longrightarrow> e = FileNotFoundError"
    by simp
  show ?case
  proof (cases "process_agent fs (fst a) (snd a)")
    case (Inl e)
    with Cons.prems have "e = FileNotFoundError" by simp
    with Inl show ?thesis
      by (simp add: Cons.IH [OF rest] saved_figure_def data_not_found_def)
  next
    case (Inr res)
    then show ?thesis
      by (simp add: Cons.IH [OF rest] saved_figure_def data_not_found_def)
  qed
qed

lemma plot_loop_uncaught:
  assumes "process_agent fs (fst a) (snd a) = Inl e" and "e \<noteq> FileNotFoundError"
  shows "plot_loop fs (a # rest) st = (st, Some e)"
  using assms by simp

lemma to_timestamp_example: "to_timestamp 648 = utc 2024 1 1" "to_timestamp 649 = utc 2024 2 1"
  by (simp_all add: to_timestamp_def period_year_def period_month_def utc_def)

lemma plot_stacked_area_example:
  "plot_stacked_area (aggregate_by_month_industry example_joined) title 10 =
     Inr ((example_chart agent_name)\<lparr>chart_title := title\<rparr>)"
  by (simp add: plot_stacked_area_def example_aggregate plot_defs column_with_desc_def
        dict_get_def NAICS_DESCRIPTIONS_plot_def to_timestamp_example example_chart_def)

lemma process_agent_example:
  assumes "load_first_use fs agent_key = Inr first_use"
    and "merge_with_predictions fs first_use agent_key = Inr example_joined"
  shows "process_agent fs agent_name agent_key = Inr (example_chart agent_name, example_joined)"
proof -
  have "process_agent fs agent_name agent_key =
      bind_err (plot_stacked_area (aggregate_by_month_industry example_joined)
                 (''Monthly Industry Adoption - '' @ agent_name) 10)
        (\<lambda>ch. Inr (ch, example_joined))"
    unfolding process_agent_def assms bind_err_Inr ..
  then show ?thesis
    unfolding plot_stacked_area_example [of _ agent_name] bind_err_Inr
    by (simp add: example_chart_def)
qed


lemma example_copilot_load:
  "load_and_process example_fs_copilot ''copilot'' = Inr example_joined"
  "load_first_use example_fs_copilot ''copilot'' = Inr example_first_use"
  "merge_with_predictions example_fs_copilot example_first_use ''copilot'' = Inr example_joined"
  by (simp_all add: example_fs_copilot_def merge_with_predictions_def example_defs load_defs)

lemma example_copilot_missing:
  "adoption_dir example_fs_copilot ''claude'' = None"
  "adoption_dir example_fs_copilot ''codex'' = None"
  by (simp_all add: example_fs_copilot_def)



text \<open>
  In the export loop the same file system costs only the output of \<^verbatim>\<open>claude\<close>; and an
  empty merge, which the export loop reports, leaves the plotting loop as well, since
  drawing the empty table fails.
\<close>

lemma export_main_mislabelled:
  "web_files (export_main example_fs_mislabelled) =
     [(''copilot_cumulative.json'', example_web_data),
      (''codex_cumulative.json'', example_web_data)]"
proof -
  let ?fs = "example_fs_mislabelled"
  have "generate_cumulative_data ?fs ''claude'' = Inl (KeyError ''first_use_date'')"
    by (simp add: generate_cumulative_data_def example_fs_mislabelled_def
          example_first_use_mislabelled_def example_first_use_def load_defs)
  moreover have "load_and_process ?fs ''copilot'' = Inr example_joined"
    "load_and_process ?fs ''codex'' = Inr example_joined"
    by (simp_all add: example_fs_mislabelled_def example_defs load_defs)
  then have "generate_cumulative_data ?fs ''copilot'' = Inr example_web_data"
    "generate_cumulative_data ?fs ''codex'' = Inr example_web_data"
    by (simp_all add: generate_cumulative_data_example)
  ultimately show ?thesis
    by (simp add: export_main_def export_loop_eq export_agents_def exported_file_def)
qed

lemma plot_main_empty_merge:
  "plot_main example_fs_unmatched = (\<lparr>figures = [], warnings = []\<rparr>, Some TypeError)"
proof -
  have "process_agent example_fs_unmatched ''Claude Code'' ''claude'' = Inl TypeError"
    by (simp add: process_agent_def merge_with_predictions_def example_defs load_defs
          aggregate_groupby month_industry_keys_def groupby_size_unstack_def
          plot_stacked_area_def plot_defs)
  then show ?thesis
    by (simp add: plot_main_def plot_agents_def)
qed

end
